theory Spec2Isabelle
  imports Main
begin

section \<open>Shared types\<close>

text \<open>
  Identifiers are the UUID strings of \<open>BaseEntity.id\<close>; a timestamp is the number of
  milliseconds of a JavaScript \<open>Date\<close>. The clock (\<open>new Date()\<close>) and the identifier
  the database generates for a new row are arguments of the operations that read them.
\<close>

type_synonym uuid = string
type_synonym timestamp = int

text \<open>
  The exceptions the services throw, each with its message. The first five are the
  NestJS HTTP exceptions (400, 404, 403, 409, 500); \<open>QueryFailedError\<close> is the error of
  the storage layer when a primary key or a unique index is violated.
\<close>

datatype exception =
    BadRequestException string
  | NotFoundException string
  | ForbiddenException string
  | ConflictException string
  | InternalServerErrorException string
  | QueryFailedError string

text \<open>The enums of \<open>src/db/enums\<close>.\<close>

datatype CompanyRole = OWNER | ADMIN | RECRUITER

datatype MemberStatus = MEMBER_ACTIVE | MEMBER_INVITED | MEMBER_REVOKED

datatype JobVisibility = PUBLIC | PRIVATE

datatype JobStatus = DRAFT | JOB_ACTIVE | CLOSED

datatype ApplicationStatus = APPLIED | ACCEPTED | REJECTED | WITHDRAWN

text \<open>
  A \<open>jsonb\<close> column holds any JSON value; \<open>JNull\<close> is both the JavaScript \<open>null\<close> and
  the SQL \<open>NULL\<close> of a nullable \<open>jsonb\<close> column, which the driver reads back as \<open>null\<close>.
\<close>

datatype json =
    JNull
  | JBool bool
  | JNum int
  | JStr string
  | JArr "json list"
  | JObj "(string \<times> json) list"

section \<open>Entities and the database\<close>

text \<open>
  One record per entity class; a field \<open>x\<close> of the class is the field \<open>p_x\<close> of the
  record, with \<open>p\<close> the initials of the table. A relation is stored as the identifier
  of its join column.
\<close>

record CompanyMember =
  cm_id :: uuid
  cm_company_id :: uuid
  cm_user_id :: uuid
  cm_role :: CompanyRole
  cm_status :: MemberStatus

record Company =
  c_id :: uuid
  c_name :: string

text \<open>
  Of the columns of \<open>job_listings\<close>, the free-text ones that no operation below reads
  (requirements, salary_range, location, employment_type, application_mode) are left
  out, and so is \<open>updated_at\<close> everywhere.
\<close>

record JobListing =
  jl_id :: uuid
  jl_created_at :: timestamp
  jl_company_id :: uuid
  jl_created_by :: uuid
  jl_title :: string
  jl_description :: string
  jl_visibility :: JobVisibility
  jl_status :: JobStatus
  jl_application_deadline :: "timestamp option"
  jl_screening_questions_json :: json
  jl_deleted_at :: "timestamp option"

record QuestionBank =
  qb_id :: uuid
  qb_company_id :: uuid
  qb_created_by :: uuid
  qb_name :: string
  qb_questions_json :: json

record Resume =
  r_id :: uuid
  r_user_id :: uuid
  r_title :: string
  r_storage_key :: string
  r_original_filename :: string
  r_mime_type :: string
  r_file_size_bytes :: nat
  r_is_primary :: bool

record JobApplication =
  ja_id :: uuid
  ja_created_at :: timestamp
  ja_job_id :: uuid
  ja_company_id :: uuid
  ja_user_id :: uuid
  ja_resume_id :: "uuid option"
  ja_answers_json :: json
  ja_video_url :: "string option"
  ja_status :: ApplicationStatus
  ja_status_changed_by :: "uuid option"

record ApplicationComment =
  ac_id :: uuid
  ac_created_at :: timestamp
  ac_job_application_id :: uuid
  ac_company_id :: uuid
  ac_user_id :: uuid
  ac_comment :: string
  ac_visible_to_candidate :: bool

text \<open>
  The state the services work on: the tables, and the object keys of the storage
  bucket that holds the resume files.
\<close>

record db =
  companies :: "Company list"
  company_members :: "CompanyMember list"
  job_listings :: "JobListing list"
  question_banks :: "QuestionBank list"
  resumes :: "Resume list"
  job_applications :: "JobApplication list"
  application_comments :: "ApplicationComment list"
  bucket :: "string list"

definition empty_db :: db where
  "empty_db = \<lparr>companies = [], company_members = [], job_listings = [], question_banks = [],
     resumes = [], job_applications = [], application_comments = [], bucket = []\<rparr>"

section \<open>Repository operations\<close>

text \<open>
  \<open>Repository.findOne\<close> is \<^const>\<open>find\<close> (the first row that matches, or \<open>None\<close>),
  \<open>Repository.count\<close> is the length of a \<^const>\<open>filter\<close>. \<open>Repository.save\<close> of an
  entity that was loaded from the table writes the entity over the row of its
  identifier.
\<close>

definition save :: "('a \<Rightarrow> uuid) \<Rightarrow> 'a \<Rightarrow> 'a list \<Rightarrow> 'a list" where
  "save key e rows = map (\<lambda>r. if key r = key e then e else r) rows"

text \<open>
  \<open>Repository.save\<close> of a new entity inserts a row; the primary key rejects an
  identifier that is already in the table.
\<close>

definition insert_row :: "('a \<Rightarrow> uuid) \<Rightarrow> 'a \<Rightarrow> 'a list \<Rightarrow> exception + 'a list" where
  "insert_row key e rows =
     (if key e \<in> set (map key rows)
      then Inl (QueryFailedError ''duplicate key value violates unique constraint'')
      else Inr (rows @ [e]))"

text \<open>The set-based \<open>UPDATE ... SET ... WHERE\<close> of the query builder.\<close>

definition update_where :: "('a \<Rightarrow> bool) \<Rightarrow> ('a \<Rightarrow> 'a) \<Rightarrow> 'a list \<Rightarrow> 'a list" where
  "update_where P f rows = map (\<lambda>r. if P r then f r else r) rows"

text \<open>
  \<open>Repository.findAndCount\<close> with \<open>order: { created_at: 'DESC' }\<close>,
  \<open>skip: (page - 1) * limit\<close> and \<open>take: limit\<close>: the page of the matching rows and the
  number of all matching rows. Rows of equal \<open>created_at\<close> come in one fixed order (the
  database leaves it open). \<open>PaginationSchema\<close> admits \<open>page \<ge> 1\<close> and
  \<open>1 \<le> limit \<le> 100\<close> only.
\<close>

definition findAndCount ::
  "('a \<Rightarrow> bool) \<Rightarrow> ('a \<Rightarrow> timestamp) \<Rightarrow> nat \<Rightarrow> nat \<Rightarrow> 'a list \<Rightarrow> 'a list \<times> nat" where
  "findAndCount P created page limit rows =
     (let matching = filter P rows
      in (take limit (drop ((page - 1) * limit) (rev (sort_key created matching))),
          length matching))"

record PaginationMeta =
  meta_total :: nat
  meta_page :: nat
  meta_limit :: nat
  meta_totalPages :: nat

record 'a PaginatedResult =
  data :: "'a list"
  meta :: PaginationMeta

text \<open>\<open>Math.ceil(total / limit)\<close>, for the \<open>limit \<ge> 1\<close> that the schema admits.\<close>

definition paginate :: "'a list \<Rightarrow> nat \<Rightarrow> nat \<Rightarrow> nat \<Rightarrow> 'a PaginatedResult" where
  "paginate items totalRows page limit =
     \<lparr>data = items,
      meta = \<lparr>meta_total = totalRows, meta_page = page, meta_limit = limit,
               meta_totalPages = (totalRows + limit - 1) div limit\<rparr>\<rparr>"

section \<open>MemberService\<close>

definition active_owner :: "uuid \<Rightarrow> CompanyMember \<Rightarrow> bool" where
  "active_owner companyId m =
     (cm_company_id m = companyId \<and> cm_role m = OWNER \<and> cm_status m = MEMBER_ACTIVE)"

definition ownerCount :: "uuid \<Rightarrow> db \<Rightarrow> nat" where
  "ownerCount companyId d = length (filter (active_owner companyId) (company_members d))"

definition updateMemberRole ::
  "uuid \<Rightarrow> uuid \<Rightarrow> CompanyRole \<Rightarrow> db \<Rightarrow> exception + ((uuid \<times> CompanyRole \<times> MemberStatus) \<times> db)" where
  "updateMemberRole companyId memberId dto_role d =
     (case find (\<lambda>m. cm_id m = memberId \<and> cm_company_id m = companyId) (company_members d) of
        None \<Rightarrow> Inl (NotFoundException ''Membership not found'')
      | Some membership \<Rightarrow>
          if cm_role membership = OWNER \<and> dto_role \<noteq> OWNER \<and> ownerCount companyId d \<le> 1
          then Inl (BadRequestException
                 ''Cannot downgrade the last OWNER. Transfer ownership first.'')
          else
            let membership' = membership\<lparr>cm_role := dto_role\<rparr>
            in Inr ((cm_id membership', cm_role membership', cm_status membership'),
                    d\<lparr>company_members := save cm_id membership' (company_members d)\<rparr>))"

definition revokeMember :: "uuid \<Rightarrow> uuid \<Rightarrow> db \<Rightarrow> exception + (string \<times> db)" where
  "revokeMember companyId memberId d =
     (case find (\<lambda>m. cm_id m = memberId \<and> cm_company_id m = companyId) (company_members d) of
        None \<Rightarrow> Inl (NotFoundException ''Membership not found'')
      | Some membership \<Rightarrow>
          if cm_role membership = OWNER \<and> ownerCount companyId d \<le> 1
          then Inl (BadRequestException ''Cannot revoke the last OWNER.'')
          else
            let membership' = membership\<lparr>cm_status := MEMBER_REVOKED\<rparr>
            in Inr (''Member revoked successfully'',
                    d\<lparr>company_members := save cm_id membership' (company_members d)\<rparr>))"

text \<open>
  \<open>transferOwnership\<close> runs in one transaction: an exception leaves the database as it
  was. The two \<open>findOne\<close> calls load two entities, also when both are the same row;
  each \<open>save\<close> writes its own entity.
\<close>

definition transferOwnership :: "uuid \<Rightarrow> uuid \<Rightarrow> uuid \<Rightarrow> db \<Rightarrow> exception + (string \<times> db)" where
  "transferOwnership companyId targetMemberId currentUserId d =
     (case find (\<lambda>m. cm_company_id m = companyId \<and> cm_user_id m = currentUserId \<and>
                      cm_role m = OWNER \<and> cm_status m = MEMBER_ACTIVE) (company_members d) of
        None \<Rightarrow> Inl (ForbiddenException ''Only OWNER can transfer ownership'')
      | Some currentMembership \<Rightarrow>
          (case find (\<lambda>m. cm_id m = targetMemberId \<and> cm_company_id m = companyId \<and>
                           cm_status m = MEMBER_ACTIVE) (company_members d) of
             None \<Rightarrow> Inl (NotFoundException ''Target member not found'')
           | Some targetMembership \<Rightarrow>
               let rows1 = save cm_id (targetMembership\<lparr>cm_role := OWNER\<rparr>) (company_members d);
                   rows2 = save cm_id (currentMembership\<lparr>cm_role := ADMIN\<rparr>) rows1
               in Inr (''Ownership transferred successfully'', d\<lparr>company_members := rows2\<rparr>)))"

text \<open>
  A sequence of role-change and revoke requests: a request that throws leaves the
  database unchanged, and the next request runs on the result.
\<close>

datatype member_op =
    UpdateMemberRole uuid uuid CompanyRole
  | RevokeMember uuid uuid

fun member_step :: "db \<Rightarrow> member_op \<Rightarrow> db" where
  "member_step d (UpdateMemberRole companyId memberId r) =
     (case updateMemberRole companyId memberId r d of Inl e \<Rightarrow> d | Inr (res, d') \<Rightarrow> d')"
| "member_step d (RevokeMember companyId memberId) =
     (case revokeMember companyId memberId d of Inl e \<Rightarrow> d | Inr (res, d') \<Rightarrow> d')"

definition member_ops :: "db \<Rightarrow> member_op list \<Rightarrow> db" where
  "member_ops d ops = foldl member_step d ops"

text \<open>
  The invariant of the membership table for a tenant \<open>T\<close>: identifiers are unique (the
  primary key) and \<open>T\<close> has an ACTIVE OWNER.
\<close>

definition members_ok :: "uuid \<Rightarrow> db \<Rightarrow> bool" where
  "members_ok T d = (distinct (map cm_id (company_members d)) \<and> 1 \<le> ownerCount T d)"

section \<open>QuestionBankService\<close>

definition QuestionBankService_findOne :: "uuid \<Rightarrow> uuid \<Rightarrow> db \<Rightarrow> exception + QuestionBank" where
  "QuestionBankService_findOne companyId qbId d =
     (case find (\<lambda>q. qb_id q = qbId \<and> qb_company_id q = companyId) (question_banks d) of
        None \<Rightarrow> Inl (NotFoundException ''Question bank not found'')
      | Some qb \<Rightarrow> Inr qb)"

text \<open>
  \<open>UpdateQuestionBankDto\<close> is the partial schema: each key is present or absent, and
  \<open>Object.assign\<close> copies the present ones.
\<close>

record UpdateQuestionBankDto =
  uqb_name :: "string option"
  uqb_questions_json :: "json option"

definition assign_question_bank :: "QuestionBank \<Rightarrow> UpdateQuestionBankDto \<Rightarrow> QuestionBank" where
  "assign_question_bank qb dto =
     (let qb1 = (case uqb_name dto of None \<Rightarrow> qb | Some n \<Rightarrow> qb\<lparr>qb_name := n\<rparr>)
      in case uqb_questions_json dto of None \<Rightarrow> qb1 | Some q \<Rightarrow> qb1\<lparr>qb_questions_json := q\<rparr>)"

definition QuestionBankService_update ::
  "uuid \<Rightarrow> uuid \<Rightarrow> UpdateQuestionBankDto \<Rightarrow> db \<Rightarrow> exception + (QuestionBank \<times> db)" where
  "QuestionBankService_update companyId qbId dto d =
     (case QuestionBankService_findOne companyId qbId d of
        Inl e \<Rightarrow> Inl e
      | Inr qb \<Rightarrow>
          let qb' = assign_question_bank qb dto
          in Inr (qb', d\<lparr>question_banks := save qb_id qb' (question_banks d)\<rparr>))"

section \<open>JobService\<close>

text \<open>
  \<open>CreateJobDto\<close> after validation: the deadline is the parsed ISO date, the optional
  keys are \<open>None\<close> when absent.
\<close>

record CreateJobDto =
  cj_title :: string
  cj_description :: string
  cj_visibility :: JobVisibility
  cj_status :: JobStatus
  cj_application_deadline :: "timestamp option"
  cj_question_bank_id :: "uuid option"

text \<open>
  The snapshot step of \<open>create\<close>: \<open>if (dto.question_bank_id)\<close> skips an absent and an
  empty identifier; \<open>screeningQuestions ?? undefined\<close> stores \<open>NULL\<close> for \<open>null\<close>.
\<close>

definition snapshot_questions :: "uuid \<Rightarrow> uuid option \<Rightarrow> db \<Rightarrow> exception + json" where
  "snapshot_questions companyId question_bank_id d =
     (case question_bank_id of
        None \<Rightarrow> Inr JNull
      | Some qbId \<Rightarrow>
          if qbId = [] then Inr JNull
          else (case find (\<lambda>q. qb_id q = qbId \<and> qb_company_id q = companyId) (question_banks d) of
                  None \<Rightarrow> Inl (NotFoundException ''Question bank not found'')
                | Some qb \<Rightarrow> Inr (qb_questions_json qb)))"

text \<open>
  The entity that \<open>jobRepo.create\<close> builds, with the snapshot \<open>screeningQuestions\<close>; the
  database generates \<open>id\<close> and \<open>created_at\<close>.
\<close>

definition new_job :: "uuid \<Rightarrow> uuid \<Rightarrow> CreateJobDto \<Rightarrow> uuid \<Rightarrow> timestamp \<Rightarrow> json \<Rightarrow> JobListing" where
  "new_job companyId userId dto new_id now screeningQuestions =
     \<lparr>jl_id = new_id, jl_created_at = now, jl_company_id = companyId,
      jl_created_by = userId, jl_title = cj_title dto,
      jl_description = cj_description dto, jl_visibility = cj_visibility dto,
      jl_status = cj_status dto,
      jl_application_deadline = cj_application_deadline dto,
      jl_screening_questions_json = screeningQuestions,
      jl_deleted_at = None\<rparr>"

text \<open>
  \<open>create\<close> runs in one transaction; its result is \<open>{ id, title, status, created_at }\<close>.
\<close>

definition JobService_create ::
  "uuid \<Rightarrow> uuid \<Rightarrow> CreateJobDto \<Rightarrow> uuid \<Rightarrow> timestamp \<Rightarrow> db \<Rightarrow>
     exception + ((uuid \<times> string \<times> JobStatus \<times> timestamp) \<times> db)" where
  "JobService_create companyId userId dto new_id now d =
     (case snapshot_questions companyId (cj_question_bank_id dto) d of
        Inl e \<Rightarrow> Inl e
      | Inr screeningQuestions \<Rightarrow>
          let job = new_job companyId userId dto new_id now screeningQuestions
          in (case insert_row jl_id job (job_listings d) of
                Inl e \<Rightarrow> Inl e
              | Inr rows \<Rightarrow>
                  Inr ((jl_id job, jl_title job, jl_status job, jl_created_at job),
                       d\<lparr>job_listings := rows\<rparr>)))"

text \<open>
  \<open>autoCloseExpiredJobs\<close>: one \<open>UPDATE\<close> over the postings that are ACTIVE, not deleted and
  whose deadline is set and \<open>\<le> now\<close>; \<open>if (companyId)\<close> adds the company condition for a
  given, non-empty identifier.
\<close>

definition deadline_passed :: "timestamp \<Rightarrow> JobListing \<Rightarrow> bool" where
  "deadline_passed now j =
     (case jl_application_deadline j of None \<Rightarrow> False | Some deadline \<Rightarrow> deadline \<le> now)"

definition in_scope :: "uuid option \<Rightarrow> JobListing \<Rightarrow> bool" where
  "in_scope companyId j =
     (case companyId of None \<Rightarrow> True | Some c \<Rightarrow> c = [] \<or> jl_company_id j = c)"

definition autoCloseExpiredJobs :: "uuid option \<Rightarrow> timestamp \<Rightarrow> db \<Rightarrow> db" where
  "autoCloseExpiredJobs companyId now d =
     d\<lparr>job_listings :=
         update_where
           (\<lambda>j. jl_status j = JOB_ACTIVE \<and> deadline_passed now j \<and> jl_deleted_at j = None \<and>
                 in_scope companyId j)
           (\<lambda>j. j\<lparr>jl_status := CLOSED\<rparr>)
           (job_listings d)\<rparr>"

definition JobService_findAll ::
  "uuid \<Rightarrow> nat \<Rightarrow> nat \<Rightarrow> timestamp \<Rightarrow> db \<Rightarrow> JobListing PaginatedResult \<times> db" where
  "JobService_findAll companyId page limit now d =
     (let d' = autoCloseExpiredJobs (Some companyId) now d;
          (items, totalRows) =
            findAndCount (\<lambda>j. jl_company_id j = companyId \<and> jl_deleted_at j = None)
              jl_created_at page limit (job_listings d')
      in (paginate items totalRows page limit, d'))"

definition JobService_findOne :: "uuid \<Rightarrow> uuid \<Rightarrow> db \<Rightarrow> exception + JobListing" where
  "JobService_findOne companyId jobId d =
     (case find (\<lambda>j. jl_id j = jobId \<and> jl_company_id j = companyId \<and> jl_deleted_at j = None)
             (job_listings d) of
        None \<Rightarrow> Inl (NotFoundException ''Job not found'')
      | Some job \<Rightarrow> Inr job)"

text \<open>
  \<open>UpdateJobDto\<close> is the partial schema over the columns kept in \<open>JobListing\<close>; a present
  deadline is the parsed ISO date. \<open>Repository.merge\<close> copies the present keys that are
  columns of the entity (so not \<open>question_bank_id\<close>, which is left out here).
\<close>

record UpdateJobDto =
  uj_title :: "string option"
  uj_description :: "string option"
  uj_visibility :: "JobVisibility option"
  uj_status :: "JobStatus option"
  uj_application_deadline :: "timestamp option"

definition merge_job :: "JobListing \<Rightarrow> UpdateJobDto \<Rightarrow> JobListing" where
  "merge_job job dto =
     job\<lparr>jl_title := (case uj_title dto of None \<Rightarrow> jl_title job | Some t \<Rightarrow> t),
         jl_description :=
           (case uj_description dto of None \<Rightarrow> jl_description job | Some t \<Rightarrow> t),
         jl_visibility :=
           (case uj_visibility dto of None \<Rightarrow> jl_visibility job | Some v \<Rightarrow> v),
         jl_status := (case uj_status dto of None \<Rightarrow> jl_status job | Some st \<Rightarrow> st),
         jl_application_deadline :=
           (case uj_application_deadline dto of
              None \<Rightarrow> jl_application_deadline job | Some t \<Rightarrow> Some t)\<rparr>"

definition JobService_update ::
  "uuid \<Rightarrow> uuid \<Rightarrow> UpdateJobDto \<Rightarrow> db \<Rightarrow> exception + (JobListing \<times> db)" where
  "JobService_update companyId jobId dto d =
     (case JobService_findOne companyId jobId d of
        Inl e \<Rightarrow> Inl e
      | Inr job \<Rightarrow>
          let job' = merge_job job dto
          in Inr (job', d\<lparr>job_listings := save jl_id job' (job_listings d)\<rparr>))"

text \<open>The result of \<open>updateStatus\<close> is \<open>{ id, title, status }\<close>.\<close>

definition JobService_updateStatus ::
  "uuid \<Rightarrow> uuid \<Rightarrow> JobStatus \<Rightarrow> db \<Rightarrow> exception + ((uuid \<times> string \<times> JobStatus) \<times> db)" where
  "JobService_updateStatus companyId jobId dto_status d =
     (case JobService_findOne companyId jobId d of
        Inl e \<Rightarrow> Inl e
      | Inr job \<Rightarrow>
          let job' = job\<lparr>jl_status := dto_status\<rparr>
          in Inr ((jl_id job', jl_title job', jl_status job'),
                  d\<lparr>job_listings := save jl_id job' (job_listings d)\<rparr>))"

definition JobService_softDelete ::
  "uuid \<Rightarrow> uuid \<Rightarrow> timestamp \<Rightarrow> db \<Rightarrow> exception + (string \<times> db)" where
  "JobService_softDelete companyId jobId now d =
     (case JobService_findOne companyId jobId d of
        Inl e \<Rightarrow> Inl e
      | Inr job \<Rightarrow>
          Inr (''Job deleted successfully'',
               d\<lparr>job_listings := save jl_id (job\<lparr>jl_deleted_at := Some now\<rparr>) (job_listings d)\<rparr>))"

text \<open>
  The item of the public listing (of the columns kept in \<open>JobListing\<close>); \<open>company_name\<close>
  is \<open>job.company?.name\<close> of the joined company.
\<close>

record PublicJob =
  pj_id :: uuid
  pj_title :: string
  pj_description :: string
  pj_application_deadline :: "timestamp option"
  pj_company_name :: "string option"
  pj_created_at :: timestamp

definition public_job :: "db \<Rightarrow> JobListing \<Rightarrow> PublicJob" where
  "public_job d job =
     \<lparr>pj_id = jl_id job, pj_title = jl_title job, pj_description = jl_description job,
      pj_application_deadline = jl_application_deadline job,
      pj_company_name = map_option c_name (find (\<lambda>c. c_id c = jl_company_id job) (companies d)),
      pj_created_at = jl_created_at job\<rparr>"

text \<open>\<open>findPublicJobs\<close> only reads: the database after the call is the one before it.\<close>

definition public_active :: "JobListing \<Rightarrow> bool" where
  "public_active j =
     (jl_visibility j = PUBLIC \<and> jl_status j = JOB_ACTIVE \<and> jl_deleted_at j = None)"

definition JobService_findPublicJobs :: "nat \<Rightarrow> nat \<Rightarrow> db \<Rightarrow> PublicJob PaginatedResult" where
  "JobService_findPublicJobs page limit d =
     (let (items, totalRows) = findAndCount public_active jl_created_at page limit (job_listings d)
      in paginate (map (public_job d) items) totalRows page limit)"

section \<open>ResumeService\<close>

definition MAX_RESUMES_PER_USER :: nat where
  "MAX_RESUMES_PER_USER = 10"

text \<open>The fields of the uploaded file that \<open>create\<close> reads (the buffer is left out).\<close>

record MulterFile =
  originalname :: string
  mimetype :: string
  size_bytes :: nat

text \<open>
  \<open>uploadFile\<close> with \<open>upsert: false\<close>: it fails when the service reports an error
  (\<open>upload_ok\<close> is false) or the key is taken. \<open>deleteFile\<close> removes the key.
\<close>

definition uploadFile :: "string \<Rightarrow> bool \<Rightarrow> string list \<Rightarrow> string list option" where
  "uploadFile path upload_ok keys =
     (if upload_ok \<and> path \<notin> set keys then Some (path # keys) else None)"

definition deleteFile :: "string \<Rightarrow> string list \<Rightarrow> string list" where
  "deleteFile path keys = removeAll path keys"

text \<open>\<open>title || file.originalname\<close>: an absent or empty title gives the file name.\<close>

definition title_or :: "string option \<Rightarrow> string \<Rightarrow> string" where
  "title_or title fallback =
     (case title of None \<Rightarrow> fallback | Some t \<Rightarrow> if t = [] then fallback else t)"

text \<open>The entity that \<open>resumeRepo.create\<close> builds; the database generates \<open>id\<close>.\<close>

definition new_resume ::
  "uuid \<Rightarrow> MulterFile \<Rightarrow> string option \<Rightarrow> bool \<Rightarrow> string \<Rightarrow> uuid \<Rightarrow> Resume" where
  "new_resume userId fl title isPrimary storageKey new_id =
     \<lparr>r_id = new_id, r_user_id = userId, r_title = title_or title (originalname fl),
      r_storage_key = storageKey, r_original_filename = originalname fl,
      r_mime_type = mimetype fl, r_file_size_bytes = size_bytes fl,
      r_is_primary = isPrimary\<rparr>"

text \<open>
  \<open>create\<close>: \<open>storageKey\<close> is the generated key \<open>userId/randomUUID() + ext\<close>. The
  result comes together with the state. A reached limit and a failed upload leave the
  state as it was; when the insert fails, the \<open>catch\<close> block deletes the uploaded file
  again, and the transaction of the primary case rolls its demotion back.
\<close>

definition ResumeService_create ::
  "uuid \<Rightarrow> MulterFile \<Rightarrow> string option \<Rightarrow> bool \<Rightarrow> string \<Rightarrow> bool \<Rightarrow> uuid \<Rightarrow> db \<Rightarrow>
     (exception + Resume) \<times> db" where
  "ResumeService_create userId fl title isPrimary storageKey upload_ok new_id d =
     (if MAX_RESUMES_PER_USER \<le> length (filter (\<lambda>r. r_user_id r = userId) (resumes d))
      then (Inl (BadRequestException ''Maximum resume limit reached (10)''), d)
      else
        (case uploadFile storageKey upload_ok (bucket d) of
           None \<Rightarrow> (Inl (InternalServerErrorException ''Failed to upload file to storage''), d)
         | Some keys \<Rightarrow>
             let d1 = d\<lparr>bucket := keys\<rparr>
             in if isPrimary
                then
                  (let demoted = update_where (\<lambda>r. r_user_id r = userId \<and> r_is_primary r)
                                   (\<lambda>r. r\<lparr>r_is_primary := False\<rparr>) (resumes d1);
                       resume = new_resume userId fl title True storageKey new_id
                   in case insert_row r_id resume demoted of
                        Inl e \<Rightarrow> (Inl e, d1\<lparr>bucket := deleteFile storageKey (bucket d1)\<rparr>)
                      | Inr rows \<Rightarrow> (Inr resume, d1\<lparr>resumes := rows\<rparr>))
                else
                  (let resume = new_resume userId fl title False storageKey new_id
                   in case insert_row r_id resume (resumes d1) of
                        Inl e \<Rightarrow> (Inl e, d1\<lparr>bucket := deleteFile storageKey (bucket d1)\<rparr>)
                      | Inr rows \<Rightarrow> (Inr resume, d1\<lparr>resumes := rows\<rparr>))))"

definition ResumeService_setPrimary :: "uuid \<Rightarrow> uuid \<Rightarrow> db \<Rightarrow> exception + (Resume \<times> db)" where
  "ResumeService_setPrimary userId resumeId d =
     (case find (\<lambda>r. r_id r = resumeId \<and> r_user_id r = userId) (resumes d) of
        None \<Rightarrow> Inl (NotFoundException ''Resume not found'')
      | Some resume \<Rightarrow>
          let demoted = update_where (\<lambda>r. r_user_id r = userId)
                          (\<lambda>r. r\<lparr>r_is_primary := False\<rparr>) (resumes d);
              resume' = resume\<lparr>r_is_primary := True\<rparr>
          in Inr (resume', d\<lparr>resumes := save r_id resume' demoted\<rparr>))"

text \<open>
  \<open>delete\<close>: \<open>remove_error\<close> is the \<open>code\<close> of the error that \<open>Repository.remove\<close> throws,
  if it throws; code 23503 (foreign-key violation) becomes a \<open>ConflictException\<close>, any
  other error is thrown on (the message is written with a hyphen for its dash). A
  removal that succeeds takes the row away, sets the
  \<open>resume_id\<close> of the applications that used it to \<open>NULL\<close> (\<open>onDelete: 'SET NULL'\<close>) and
  then deletes the file from the bucket.
\<close>

definition ResumeService_delete ::
  "uuid \<Rightarrow> uuid \<Rightarrow> string option \<Rightarrow> db \<Rightarrow> exception + (string \<times> db)" where
  "ResumeService_delete userId resumeId remove_error d =
     (case find (\<lambda>r. r_id r = resumeId \<and> r_user_id r = userId) (resumes d) of
        None \<Rightarrow> Inl (NotFoundException ''Resume not found'')
      | Some resume \<Rightarrow>
          (case remove_error of
             Some code \<Rightarrow>
               if code = ''23503''
               then Inl (ConflictException
                 ''Cannot delete resume - it is referenced by one or more job applications'')
               else Inl (QueryFailedError code)
           | None \<Rightarrow>
               Inr (''Resume deleted successfully'',
                    d\<lparr>resumes := filter (\<lambda>r. r_id r \<noteq> r_id resume) (resumes d),
                      job_applications :=
                        update_where (\<lambda>a. ja_resume_id a = Some (r_id resume))
                          (\<lambda>a. a\<lparr>ja_resume_id := None\<rparr>) (job_applications d),
                      bucket := deleteFile (r_storage_key resume) (bucket d)\<rparr>)))"

text \<open>A sequence of resume-create and set-primary requests, run one after the other.\<close>

datatype resume_op =
    CreateResume uuid MulterFile "string option" bool string bool uuid
  | SetPrimary uuid uuid

fun resume_step :: "db \<Rightarrow> resume_op \<Rightarrow> db" where
  "resume_step d (CreateResume userId fl title isPrimary storageKey upload_ok new_id) =
     snd (ResumeService_create userId fl title isPrimary storageKey upload_ok new_id d)"
| "resume_step d (SetPrimary userId resumeId) =
     (case ResumeService_setPrimary userId resumeId d of Inl e \<Rightarrow> d | Inr (res, d') \<Rightarrow> d')"

definition resume_ops :: "db \<Rightarrow> resume_op list \<Rightarrow> db" where
  "resume_ops d ops = foldl resume_step d ops"

definition primaryCount :: "uuid \<Rightarrow> db \<Rightarrow> nat" where
  "primaryCount userId d =
     length (filter (\<lambda>r. r_user_id r = userId \<and> r_is_primary r) (resumes d))"

definition resumeCount :: "uuid \<Rightarrow> db \<Rightarrow> nat" where
  "resumeCount userId d = length (filter (\<lambda>r. r_user_id r = userId) (resumes d))"

text \<open>
  The invariant of the resume table for an actor \<open>A\<close>: identifiers are unique (the
  primary key) and \<open>A\<close> owns at most \<open>MAX_RESUMES_PER_USER\<close> resumes.
\<close>

definition within_limit :: "uuid \<Rightarrow> db \<Rightarrow> bool" where
  "within_limit A d =
     (distinct (map r_id (resumes d)) \<and> resumeCount A d \<le> MAX_RESUMES_PER_USER)"

section \<open>ApplicationService\<close>

text \<open>
  \<open>CreateApplicationDto\<close> after validation. \<open>dto.answers_json || undefined\<close> and
  \<open>dto.video_url || undefined\<close> store \<open>NULL\<close> for an absent and for a falsy value.
\<close>

record CreateApplicationDto =
  ca_job_id :: uuid
  ca_resume_id :: uuid
  ca_answers_json :: "json option"
  ca_video_url :: "string option"

fun falsy :: "json \<Rightarrow> bool" where
  "falsy JNull = True"
| "falsy (JBool b) = (b = False)"
| "falsy (JNum n) = (n = 0)"
| "falsy (JStr s) = (s = [])"
| "falsy (JArr xs) = False"
| "falsy (JObj kvs) = False"

definition answers_or_undefined :: "json option \<Rightarrow> json" where
  "answers_or_undefined a =
     (case a of None \<Rightarrow> JNull | Some v \<Rightarrow> if falsy v then JNull else v)"

definition video_or_undefined :: "string option \<Rightarrow> string option" where
  "video_or_undefined v =
     (case v of None \<Rightarrow> None | Some url \<Rightarrow> if url = [] then None else Some url)"

text \<open>
  The insert into \<open>job_applications\<close>: besides the primary key, the unique index on
  \<open>(job, user)\<close> rejects a second row of the pair.
\<close>

definition insert_application ::
  "JobApplication \<Rightarrow> JobApplication list \<Rightarrow> exception + JobApplication list" where
  "insert_application a rows =
     (if (ja_job_id a, ja_user_id a) \<in> set (map (\<lambda>r. (ja_job_id r, ja_user_id r)) rows)
      then Inl (QueryFailedError ''duplicate key value violates unique constraint'')
      else insert_row ja_id a rows)"

text \<open>
  The entity that \<open>appRepo.create\<close> builds for the posting \<open>job\<close>; the database generates
  \<open>id\<close> and \<open>created_at\<close>.
\<close>

definition new_application ::
  "uuid \<Rightarrow> CreateApplicationDto \<Rightarrow> uuid \<Rightarrow> timestamp \<Rightarrow> JobListing \<Rightarrow> JobApplication" where
  "new_application userId dto new_id now job =
     \<lparr>ja_id = new_id, ja_created_at = now, ja_job_id = ca_job_id dto,
      ja_company_id = jl_company_id job, ja_user_id = userId,
      ja_resume_id = Some (ca_resume_id dto),
      ja_answers_json = answers_or_undefined (ca_answers_json dto),
      ja_video_url = video_or_undefined (ca_video_url dto),
      ja_status = APPLIED, ja_status_changed_by = None\<rparr>"

text \<open>
  \<open>apply\<close> runs in one transaction; its result is \<open>{ id, job_id, status, created_at }\<close>.
\<close>

definition ApplicationService_apply ::
  "uuid \<Rightarrow> CreateApplicationDto \<Rightarrow> uuid \<Rightarrow> timestamp \<Rightarrow> db \<Rightarrow>
     exception + ((uuid \<times> uuid \<times> ApplicationStatus \<times> timestamp) \<times> db)" where
  "ApplicationService_apply userId dto new_id now d =
     (case find (\<lambda>j. jl_id j = ca_job_id dto \<and> jl_status j = JOB_ACTIVE \<and> jl_deleted_at j = None)
             (job_listings d) of
        None \<Rightarrow> Inl (NotFoundException ''Job not found or not accepting applications'')
      | Some job \<Rightarrow>
          if (case jl_application_deadline job of None \<Rightarrow> False | Some deadline \<Rightarrow> now > deadline)
          then Inl (BadRequestException ''Application deadline has passed'')
          else
            (case find (\<lambda>r. r_id r = ca_resume_id dto \<and> r_user_id r = userId) (resumes d) of
               None \<Rightarrow> Inl (ForbiddenException ''Resume not found or does not belong to you'')
             | Some resume \<Rightarrow>
                 (case find (\<lambda>a. ja_job_id a = ca_job_id dto \<and> ja_user_id a = userId)
                         (job_applications d) of
                    Some existing \<Rightarrow>
                      Inl (BadRequestException ''You have already applied to this job'')
                  | None \<Rightarrow>
                      let application = new_application userId dto new_id now job
                      in (case insert_application application (job_applications d) of
                            Inl e \<Rightarrow> Inl e
                          | Inr rows \<Rightarrow>
                              Inr ((ja_id application, ca_job_id dto, ja_status application,
                                    ja_created_at application),
                                   d\<lparr>job_applications := rows\<rparr>)))))"

text \<open>The uniqueness of the pair \<open>(job, user)\<close> over the table.\<close>

definition application_pair :: "JobApplication \<Rightarrow> uuid \<times> uuid" where
  "application_pair a = (ja_job_id a, ja_user_id a)"

definition applications_unique :: "db \<Rightarrow> bool" where
  "applications_unique d = distinct (map application_pair (job_applications d))"

definition ApplicationService_withdraw :: "uuid \<Rightarrow> uuid \<Rightarrow> db \<Rightarrow> exception + (string \<times> db)" where
  "ApplicationService_withdraw userId applicationId d =
     (case find (\<lambda>a. ja_id a = applicationId \<and> ja_user_id a = userId) (job_applications d) of
        None \<Rightarrow> Inl (NotFoundException ''Application not found'')
      | Some application \<Rightarrow>
          if ja_status application = ACCEPTED
          then Inl (BadRequestException ''Cannot withdraw an already accepted application'')
          else if ja_status application = WITHDRAWN
          then Inl (BadRequestException ''Application is already withdrawn'')
          else
            Inr (''Application withdrawn successfully'',
                 d\<lparr>job_applications :=
                     save ja_id (application\<lparr>ja_status := WITHDRAWN\<rparr>) (job_applications d)\<rparr>))"

text \<open>
  \<open>updateStatus\<close> casts its \<open>status\<close> argument to \<open>ApplicationStatus\<close>; the result is
  \<open>{ id, status }\<close> (and \<open>updated_at\<close>).
\<close>

definition ApplicationService_updateStatus ::
  "uuid \<Rightarrow> uuid \<Rightarrow> ApplicationStatus \<Rightarrow> uuid \<Rightarrow> db \<Rightarrow>
     exception + ((uuid \<times> ApplicationStatus) \<times> db)" where
  "ApplicationService_updateStatus companyId applicationId status changedBy d =
     (case find (\<lambda>a. ja_id a = applicationId \<and> ja_company_id a = companyId)
             (job_applications d) of
        None \<Rightarrow> Inl (NotFoundException ''Application not found'')
      | Some application \<Rightarrow>
          if ja_status application = WITHDRAWN
          then Inl (BadRequestException ''Cannot update a withdrawn application'')
          else
            let application' =
                  application\<lparr>ja_status := status, ja_status_changed_by := Some changedBy\<rparr>
            in Inr ((ja_id application', ja_status application'),
                    d\<lparr>job_applications := save ja_id application' (job_applications d)\<rparr>))"

text \<open>The shape \<open>{ id, comment, visible_to_candidate, created_at }\<close> of a comment in a response.\<close>

record CommentView =
  cv_id :: uuid
  cv_comment :: string
  cv_visible_to_candidate :: bool
  cv_created_at :: timestamp

definition comment_view :: "ApplicationComment \<Rightarrow> CommentView" where
  "comment_view c =
     \<lparr>cv_id = ac_id c, cv_comment = ac_comment c,
      cv_visible_to_candidate = ac_visible_to_candidate c, cv_created_at = ac_created_at c\<rparr>"

record CreateCommentDto =
  cc_comment :: string
  cc_visible_to_candidate :: bool

definition ApplicationService_addComment ::
  "uuid \<Rightarrow> uuid \<Rightarrow> uuid \<Rightarrow> CreateCommentDto \<Rightarrow> uuid \<Rightarrow> timestamp \<Rightarrow> db \<Rightarrow>
     exception + (CommentView \<times> db)" where
  "ApplicationService_addComment companyId applicationId userId dto new_id now d =
     (case find (\<lambda>a. ja_id a = applicationId \<and> ja_company_id a = companyId)
             (job_applications d) of
        None \<Rightarrow> Inl (NotFoundException ''Application not found'')
      | Some application \<Rightarrow>
          let comment = \<lparr>ac_id = new_id, ac_created_at = now,
                         ac_job_application_id = applicationId, ac_company_id = companyId,
                         ac_user_id = userId, ac_comment = cc_comment dto,
                         ac_visible_to_candidate = cc_visible_to_candidate dto\<rparr>
          in (case insert_row ac_id comment (application_comments d) of
                Inl e \<Rightarrow> Inl e
              | Inr rows \<Rightarrow> Inr (comment_view comment, d\<lparr>application_comments := rows\<rparr>)))"

text \<open>
  The item of the candidate's listing. The relations \<open>job\<close>, \<open>job.company\<close> and
  \<open>comments\<close> are joined by their identifiers; \<open>app.job?.id\<close> and its neighbours are
  \<open>None\<close> when the join finds no row.
\<close>

record CandidateApplication =
  cand_id :: uuid
  cand_status :: ApplicationStatus
  cand_answers_json :: json
  cand_video_url :: "string option"
  cand_applied_at :: timestamp
  cand_job_id :: "uuid option"
  cand_job_title :: "string option"
  cand_company_name :: "string option"
  cand_comments :: "CommentView list"

definition candidate_application :: "db \<Rightarrow> JobApplication \<Rightarrow> CandidateApplication" where
  "candidate_application d app =
     (let job = find (\<lambda>j. jl_id j = ja_job_id app) (job_listings d);
          company = (case job of None \<Rightarrow> None
                     | Some j \<Rightarrow> find (\<lambda>c. c_id c = jl_company_id j) (companies d));
          allComments = filter (\<lambda>c. ac_job_application_id c = ja_id app) (application_comments d);
          mappedComments = map comment_view allComments
      in \<lparr>cand_id = ja_id app, cand_status = ja_status app,
          cand_answers_json = ja_answers_json app, cand_video_url = ja_video_url app,
          cand_applied_at = ja_created_at app,
          cand_job_id = map_option jl_id job, cand_job_title = map_option jl_title job,
          cand_company_name = map_option c_name company,
          cand_comments = mappedComments\<rparr>)"

definition ApplicationService_getCandidateApplications ::
  "uuid \<Rightarrow> nat \<Rightarrow> nat \<Rightarrow> db \<Rightarrow> CandidateApplication PaginatedResult" where
  "ApplicationService_getCandidateApplications userId page limit d =
     (let (items, totalRows) =
            findAndCount (\<lambda>a. ja_user_id a = userId) ja_created_at page limit (job_applications d)
      in paginate (map (candidate_application d) items) totalRows page limit)"

section \<open>Example states\<close>

definition member_m1 :: CompanyMember where
  "member_m1 = \<lparr>cm_id = ''m1'', cm_company_id = ''c1'', cm_user_id = ''u1'',
                 cm_role = OWNER, cm_status = MEMBER_ACTIVE\<rparr>"

definition member_m2 :: CompanyMember where
  "member_m2 = \<lparr>cm_id = ''m2'', cm_company_id = ''c1'', cm_user_id = ''u2'',
                 cm_role = ADMIN, cm_status = MEMBER_ACTIVE\<rparr>"

text \<open>Company \<open>c1\<close> with its single ACTIVE OWNER \<open>m1\<close> and an ACTIVE ADMIN \<open>m2\<close>.\<close>

definition db_one_owner :: db where
  "db_one_owner = empty_db\<lparr>company_members := [member_m1, member_m2]\<rparr>"

definition company_acme :: Company where
  "company_acme = \<lparr>c_id = ''c1'', c_name = ''Acme''\<rparr>"

text \<open>
  A PUBLIC, ACTIVE, non-deleted posting of company \<open>c1\<close> whose deadline 500 lies before
  the time 1000 of the read.
\<close>

definition job_j1 :: JobListing where
  "job_j1 = \<lparr>jl_id = ''j1'', jl_created_at = 100, jl_company_id = ''c1'', jl_created_by = ''u1'',
             jl_title = ''Dev'', jl_description = ''Backend developer'',
             jl_visibility = PUBLIC, jl_status = JOB_ACTIVE,
             jl_application_deadline = Some 500, jl_screening_questions_json = JNull,
             jl_deleted_at = None\<rparr>"

definition db_expired_job :: db where
  "db_expired_job = empty_db\<lparr>companies := [company_acme], job_listings := [job_j1]\<rparr>"

text \<open>
  Company \<open>c1\<close> with an open posting \<open>j2\<close>; the candidate \<open>u9\<close> owns resume \<open>r1\<close>, another
  actor \<open>u8\<close> owns resume \<open>r2\<close>.
\<close>

definition job_j2 :: JobListing where
  "job_j2 = \<lparr>jl_id = ''j2'', jl_created_at = 150, jl_company_id = ''c1'', jl_created_by = ''u1'',
             jl_title = ''QA'', jl_description = ''Test engineer'',
             jl_visibility = PUBLIC, jl_status = JOB_ACTIVE,
             jl_application_deadline = None, jl_screening_questions_json = JNull,
             jl_deleted_at = None\<rparr>"

definition resume_r1 :: Resume where
  "resume_r1 = \<lparr>r_id = ''r1'', r_user_id = ''u9'', r_title = ''CV'',
                r_storage_key = ''u9/k1.pdf'', r_original_filename = ''cv.pdf'',
                r_mime_type = ''application/pdf'', r_file_size_bytes = 1000,
                r_is_primary = True\<rparr>"

definition resume_r2 :: Resume where
  "resume_r2 = \<lparr>r_id = ''r2'', r_user_id = ''u8'', r_title = ''CV'',
                r_storage_key = ''u8/k2.pdf'', r_original_filename = ''cv.pdf'',
                r_mime_type = ''application/pdf'', r_file_size_bytes = 2000,
                r_is_primary = True\<rparr>"

definition db_hiring :: db where
  "db_hiring = empty_db\<lparr>companies := [company_acme], job_listings := [job_j2],
                         resumes := [resume_r1, resume_r2]\<rparr>"

text \<open>The application \<open>a1\<close> of \<open>u9\<close> to \<open>j2\<close>, and the state that holds it.\<close>

definition application_a1 :: JobApplication where
  "application_a1 = \<lparr>ja_id = ''a1'', ja_created_at = 200, ja_job_id = ''j2'',
                     ja_company_id = ''c1'', ja_user_id = ''u9'', ja_resume_id = Some ''r1'',
                     ja_answers_json = JNull, ja_video_url = None, ja_status = APPLIED,
                     ja_status_changed_by = None\<rparr>"

definition db_applied :: db where
  "db_applied = db_hiring\<lparr>job_applications := [application_a1]\<rparr>"

text \<open>An internal note on \<open>a1\<close>, written by the member \<open>u2\<close> of \<open>c1\<close>.\<close>

definition comment_internal :: ApplicationComment where
  "comment_internal = \<lparr>ac_id = ''cm2'', ac_created_at = 300, ac_job_application_id = ''a1'',
                       ac_company_id = ''c1'', ac_user_id = ''u2'', ac_comment = ''Internal'',
                       ac_visible_to_candidate = False\<rparr>"

definition db_commented :: db where
  "db_commented = db_applied\<lparr>application_comments := [comment_internal]\<rparr>"

text \<open>An uploaded file, and an actor \<open>u7\<close> who owns ten resumes.\<close>

definition file_cv :: MulterFile where
  "file_cv = \<lparr>originalname = ''cv.pdf'', mimetype = ''application/pdf'', size_bytes = 1000\<rparr>"

definition resume_of_u7 :: "uuid \<Rightarrow> Resume" where
  "resume_of_u7 rid = \<lparr>r_id = rid, r_user_id = ''u7'', r_title = ''CV'',
                       r_storage_key = ''u7/'' @ rid, r_original_filename = ''cv.pdf'',
                       r_mime_type = ''application/pdf'', r_file_size_bytes = 1000,
                       r_is_primary = False\<rparr>"

definition db_ten_resumes :: db where
  "db_ten_resumes =
     empty_db\<lparr>resumes := map resume_of_u7
                 [''a'', ''b'', ''c'', ''d'', ''e'', ''f'', ''g'', ''h'', ''i'', ''j'']\<rparr>"

text \<open>
  The state after \<open>u7\<close> has made the resume \<open>a\<close> primary, and the state after \<open>u9\<close> has
  created a first resume as primary in the empty state.
\<close>

definition db_ten_primary :: db where
  "db_ten_primary =
     empty_db\<lparr>resumes := (resume_of_u7 ''a'')\<lparr>r_is_primary := True\<rparr> #
                 map resume_of_u7 [''b'', ''c'', ''d'', ''e'', ''f'', ''g'', ''h'', ''i'', ''j'']\<rparr>"

definition db_first_primary :: db where
  "db_first_primary =
     empty_db\<lparr>resumes := [new_resume ''u9'' file_cv None True ''u9/k4.pdf'' ''r4''],
              bucket := [''u9/k4.pdf'']\<rparr>"

text \<open>The payload with which \<open>u9\<close> applies to \<open>j2\<close> with the own resume \<open>r1\<close>.\<close>

definition dto_apply :: CreateApplicationDto where
  "dto_apply = \<lparr>ca_job_id = ''j2'', ca_resume_id = ''r1'', ca_answers_json = None,
                ca_video_url = None\<rparr>"

text \<open>The state in which the application \<open>a1\<close> has been accepted.\<close>

definition db_accepted :: db where
  "db_accepted = db_hiring\<lparr>job_applications := [application_a1\<lparr>ja_status := ACCEPTED\<rparr>]\<rparr>"

text \<open>
  A question bank of company \<open>c1\<close>, the OWNER \<open>m3\<close> (user \<open>u8\<close>) of a second company \<open>c2\<close>,
  and a state with members, a question bank, a posting, resumes, an application and a
  comment.
\<close>

definition bank_qb1 :: QuestionBank where
  "bank_qb1 = \<lparr>qb_id = ''qb1'', qb_company_id = ''c1'', qb_created_by = ''u1'',
               qb_name = ''Backend Screening v1'',
               qb_questions_json =
                 JArr [JObj [(''id'', JStr ''q1''), (''question'', JStr ''Years of SQL?''),
                             (''type'', JStr ''number''), (''is_required'', JBool True)]]\<rparr>"

definition db_all :: db where
  "db_all = db_commented\<lparr>company_members := [member_m1, member_m2],
                           question_banks := [bank_qb1]\<rparr>"

text \<open>The same state with a second tenant \<open>c2\<close>, owned by \<open>u8\<close>.\<close>

definition member_m3 :: CompanyMember where
  "member_m3 = \<lparr>cm_id = ''m3'', cm_company_id = ''c2'', cm_user_id = ''u8'',
                 cm_role = OWNER, cm_status = MEMBER_ACTIVE\<rparr>"

definition db_two_tenants :: db where
  "db_two_tenants = db_all\<lparr>company_members := [member_m1, member_m2, member_m3]\<rparr>"

text \<open>The payload with which \<open>u9\<close> applies to \<open>j2\<close> with the resume \<open>r2\<close> of \<open>u8\<close>.\<close>

definition dto_apply_foreign :: CreateApplicationDto where
  "dto_apply_foreign = \<lparr>ca_job_id = ''j2'', ca_resume_id = ''r2'', ca_answers_json = None,
                        ca_video_url = None\<rparr>"

text \<open>
  A posting created from the question bank \<open>qb1\<close>, the state after its creation, an
  edit of the bank that replaces its questions, and the state after the edit.
\<close>

definition dto_job :: CreateJobDto where
  "dto_job = \<lparr>cj_title = ''SRE'', cj_description = ''Site reliability'',
              cj_visibility = PUBLIC, cj_status = DRAFT, cj_application_deadline = None,
              cj_question_bank_id = Some ''qb1''\<rparr>"

definition job_j5 :: JobListing where
  "job_j5 = \<lparr>jl_id = ''j5'', jl_created_at = 500, jl_company_id = ''c1'', jl_created_by = ''u1'',
             jl_title = ''SRE'', jl_description = ''Site reliability'',
             jl_visibility = PUBLIC, jl_status = DRAFT,
             jl_application_deadline = None,
             jl_screening_questions_json = qb_questions_json bank_qb1,
             jl_deleted_at = None\<rparr>"

definition db_created :: db where
  "db_created = db_all\<lparr>job_listings := [job_j2, job_j5]\<rparr>"

definition dto_edit :: UpdateQuestionBankDto where
  "dto_edit = \<lparr>uqb_name = None, uqb_questions_json = Some (JArr [])\<rparr>"

definition db_edited :: db where
  "db_edited = db_created\<lparr>question_banks := [bank_qb1\<lparr>qb_questions_json := JArr []\<rparr>]\<rparr>"

section \<open>Properties of the repository operations\<close>

lemma find_SomeD: "find P xs = Some x \<Longrightarrow> x \<in> set xs \<and> P x"
  by (induction xs) (auto split: if_splits)

lemma find_none: "(\<And>x. x \<in> set xs \<Longrightarrow> \<not> P x) \<Longrightarrow> find P xs = None"
  by (induction xs) auto

lemma find_unique:
  assumes "distinct (map key rows)" and "x \<in> set rows" and "P x"
    and "\<And>y. P y \<Longrightarrow> key y = key x"
  shows "find P rows = Some x"
  using assms(1,2)
proof (induction rows)
  case Nil
  then show ?case by simp
next
  case (Cons r rows)
  show ?case
  proof (cases "P r")
    case True
    then have "key r = key x" by (rule assms(4))
    with Cons.prems have "r = x" by (auto simp: image_iff)
    with True show ?thesis by simp
  next
    case False
    with Cons.prems assms(3) have "x \<in> set rows" by auto
    with Cons False show ?thesis by simp
  qed
qed

lemma save_keys: "map key (save key e rows) = map key rows"
  by (induction rows) (auto simp: save_def)

lemma save_absent: "key e \<notin> key ` set rows \<Longrightarrow> save key e rows = rows"
  by (induction rows) (auto simp: save_def)

text \<open>
  Saving over the row \<open>e0\<close> of a table with unique identifiers changes the number of
  rows that satisfy \<open>P\<close> by what \<open>e0\<close> and its replacement contribute.
\<close>

lemma save_count:
  assumes "distinct (map key rows)" and "e0 \<in> set rows" and "key e = key e0"
  shows "length (filter P (save key e rows)) + (if P e0 then 1 else 0)
       = length (filter P rows) + (if P e then 1 else 0)"
  using assms
proof (induction rows)
  case Nil
  then show ?case by simp
next
  case (Cons r rows)
  show ?case
  proof (cases "r = e0")
    case True
    with Cons.prems have "key e \<notin> key ` set rows" by auto
    then have "save key e rows = rows" by (rule save_absent)
    with True Cons.prems show ?thesis by (simp add: save_def)
  next
    case False
    with Cons.prems have in_rows: "e0 \<in> set rows" and d: "distinct (map key rows)"
      and ne: "key r \<noteq> key e" by auto
    from Cons.IH [OF d in_rows Cons.prems(3)] ne show ?thesis
      by (simp add: save_def)
  qed
qed

section \<open>Last-OWNER protection\<close>

lemma revokeMember_ids:
  "revokeMember c m d = Inr (res, d') \<Longrightarrow>
     map cm_id (company_members d') = map cm_id (company_members d)"
  by (auto simp: revokeMember_def save_keys Let_def split: option.splits if_splits)

lemma updateMemberRole_ids:
  "updateMemberRole c m r d = Inr (res, d') \<Longrightarrow>
     map cm_id (company_members d') = map cm_id (company_members d)"
  by (auto simp: updateMemberRole_def save_keys Let_def split: option.splits if_splits)

lemma revokeMember_ownerCount:
  assumes "distinct (map cm_id (company_members d))" and "1 \<le> ownerCount T d"
    and "revokeMember c m d = Inr (res, d')"
  shows "1 \<le> ownerCount T d'"
proof -
  from assms(3) obtain M
    where f: "find (\<lambda>x. cm_id x = m \<and> cm_company_id x = c) (company_members d) = Some M"
    and guard: "\<not> (cm_role M = OWNER \<and> ownerCount c d \<le> 1)"
    and d': "d' = d\<lparr>company_members :=
                       save cm_id (M\<lparr>cm_status := MEMBER_REVOKED\<rparr>) (company_members d)\<rparr>"
    by (auto simp: revokeMember_def Let_def split: option.splits if_splits)
  from find_SomeD [OF f] have M: "M \<in> set (company_members d)" "cm_company_id M = c"
    by auto
  have cnt: "ownerCount T d' + (if active_owner T M then 1 else 0)
       = ownerCount T d + (if active_owner T (M\<lparr>cm_status := MEMBER_REVOKED\<rparr>) then 1 else 0)"
    unfolding ownerCount_def d'
    using save_count [OF assms(1) M(1), of "M\<lparr>cm_status := MEMBER_REVOKED\<rparr>" "active_owner T"]
    by simp
  show ?thesis
  proof (cases "active_owner T M")
    case True
    then have "T = c" "cm_role M = OWNER" using M by (auto simp: active_owner_def)
    with guard have "2 \<le> ownerCount T d" by simp
    with cnt True show ?thesis by (simp add: active_owner_def)
  next
    case False
    with cnt assms(2) show ?thesis by (simp split: if_splits)
  qed
qed

lemma updateMemberRole_ownerCount:
  assumes "distinct (map cm_id (company_members d))" and "1 \<le> ownerCount T d"
    and "updateMemberRole c m r d = Inr (res, d')"
  shows "1 \<le> ownerCount T d'"
proof -
  from assms(3) obtain M
    where f: "find (\<lambda>x. cm_id x = m \<and> cm_company_id x = c) (company_members d) = Some M"
    and guard: "\<not> (cm_role M = OWNER \<and> r \<noteq> OWNER \<and> ownerCount c d \<le> 1)"
    and d': "d' = d\<lparr>company_members := save cm_id (M\<lparr>cm_role := r\<rparr>) (company_members d)\<rparr>"
    by (auto simp: updateMemberRole_def Let_def split: option.splits if_splits)
  from find_SomeD [OF f] have M: "M \<in> set (company_members d)" "cm_company_id M = c"
    by auto
  have cnt: "ownerCount T d' + (if active_owner T M then 1 else 0)
       = ownerCount T d + (if active_owner T (M\<lparr>cm_role := r\<rparr>) then 1 else 0)"
    unfolding ownerCount_def d'
    using save_count [OF assms(1) M(1), of "M\<lparr>cm_role := r\<rparr>" "active_owner T"]
    by simp
  show ?thesis
  proof (cases "active_owner T M")
    case True
    then have T: "T = c" "cm_role M = OWNER" "cm_status M = MEMBER_ACTIVE"
      using M by (auto simp: active_owner_def)
    show ?thesis
    proof (cases "r = OWNER")
      case True
      with T M have "active_owner T (M\<lparr>cm_role := r\<rparr>)" by (simp add: active_owner_def)
      with cnt \<open>active_owner T M\<close> assms(2) show ?thesis by simp
    next
      case False
      with guard T have "2 \<le> ownerCount T d" by simp
      with cnt \<open>active_owner T M\<close> show ?thesis by (simp split: if_splits)
    qed
  next
    case False
    with cnt assms(2) show ?thesis by (simp split: if_splits)
  qed
qed

lemma member_step_ok:
  assumes ok: "members_ok T d"
  shows "members_ok T (member_step d op)"
proof (cases op)
  case (UpdateMemberRole c m r)
  show ?thesis
  proof (cases "updateMemberRole c m r d")
    case (Inl e)
    with ok UpdateMemberRole show ?thesis by simp
  next
    case (Inr p)
    obtain res d' where p: "p = (res, d')" by (cases p)
    with Inr ok show ?thesis
      using updateMemberRole_ownerCount [of d T c m r res d']
        updateMemberRole_ids [of c m r d res d']
      by (simp add: UpdateMemberRole members_ok_def)
  qed
next
  case (RevokeMember c m)
  show ?thesis
  proof (cases "revokeMember c m d")
    case (Inl e)
    with ok RevokeMember show ?thesis by simp
  next
    case (Inr p)
    obtain res d' where p: "p = (res, d')" by (cases p)
    with Inr ok show ?thesis
      using revokeMember_ownerCount [of d T c m res d'] revokeMember_ids [of c m d res d']
      by (simp add: RevokeMember members_ok_def)
  qed
qed

lemma member_ops_ok: "members_ok T d \<Longrightarrow> members_ok T (member_ops d ops)"
  unfolding member_ops_def
  by (induction ops arbitrary: d) (auto intro: member_step_ok)

lemma revoke_last_owner:
  assumes "distinct (map cm_id (company_members d))" and "ownerCount T d = 1"
    and "M \<in> set (company_members d)" and "active_owner T M"
  shows "revokeMember T (cm_id M) d = Inl (BadRequestException ''Cannot revoke the last OWNER.'')"
proof -
  from assms(4) have M: "cm_company_id M = T" "cm_role M = OWNER"
    by (auto simp: active_owner_def)
  have "find (\<lambda>x. cm_id x = cm_id M \<and> cm_company_id x = T) (company_members d) = Some M"
    using assms(1,3) M(1) by (intro find_unique [where key = cm_id]) auto
  with M assms(2) show ?thesis by (simp add: revokeMember_def)
qed

text \<open>
  Claim C1. For a tenant \<open>T\<close> with at least one ACTIVE OWNER membership (in a table whose
  identifiers are unique), no sequence of revoke-member and role-change requests brings
  the number of ACTIVE OWNER memberships of \<open>T\<close> to zero. When \<open>T\<close> has exactly one ACTIVE
  OWNER membership \<open>M\<close>, revoking \<open>M\<close> fails and leaves the database as it was, so \<open>M\<close>
  stays ACTIVE. The exception is the \<open>BadRequestException\<close> (HTTP 400) of the code, not
  a \<open>ConflictException\<close> (HTTP 409).
\<close>

theorem last_owner_protected:
  assumes "distinct (map cm_id (company_members d))" and "1 \<le> ownerCount T d"
  shows "1 \<le> ownerCount T (member_ops d ops) \<and>
         (ownerCount T d = 1 \<longrightarrow> M \<in> set (company_members d) \<longrightarrow> active_owner T M \<longrightarrow>
            revokeMember T (cm_id M) d = Inl (BadRequestException ''Cannot revoke the last OWNER.'')
            \<and> member_step d (RevokeMember T (cm_id M)) = d)"
proof -
  from assms have "members_ok T d" by (simp add: members_ok_def)
  then have "members_ok T (member_ops d ops)" by (rule member_ops_ok)
  then have inv: "1 \<le> ownerCount T (member_ops d ops)" by (simp add: members_ok_def)
  have last: "revokeMember T (cm_id M) d = Inl (BadRequestException ''Cannot revoke the last OWNER.'')
            \<and> member_step d (RevokeMember T (cm_id M)) = d"
    if "ownerCount T d = 1" "M \<in> set (company_members d)" "active_owner T M"
    using revoke_last_owner [OF assms(1) that] by simp
  from inv last show ?thesis by blast
qed

theorem last_owner_protected_witness:
  "distinct (map cm_id (company_members db_one_owner)) \<and>
   ownerCount ''c1'' db_one_owner = 1 \<and>
   member_m1 \<in> set (company_members db_one_owner) \<and> active_owner ''c1'' member_m1 \<and>
   1 \<le> ownerCount ''c1'' (member_ops db_one_owner
          [RevokeMember ''c1'' ''m1'', UpdateMemberRole ''c1'' ''m1'' ADMIN,
           RevokeMember ''c1'' ''m2'']) \<and>
   revokeMember ''c1'' ''m1'' db_one_owner
     = Inl (BadRequestException ''Cannot revoke the last OWNER.'') \<and>
   member_step db_one_owner (RevokeMember ''c1'' ''m1'') = db_one_owner"
proof -
  have h1: "distinct (map cm_id (company_members db_one_owner))"
    by (simp add: db_one_owner_def empty_db_def member_m1_def member_m2_def)
  have h2: "ownerCount ''c1'' db_one_owner = 1"
    by (simp add: ownerCount_def active_owner_def db_one_owner_def empty_db_def
        member_m1_def member_m2_def)
  have h3: "member_m1 \<in> set (company_members db_one_owner)"
    by (simp add: db_one_owner_def empty_db_def)
  have h4: "active_owner ''c1'' member_m1"
    by (simp add: active_owner_def member_m1_def)
  have h5: "cm_id member_m1 = ''m1''" by (simp add: member_m1_def)
  from h2 have h2': "1 \<le> ownerCount ''c1'' db_one_owner" by simp
  show ?thesis
    using h1 h2 h3 h4 h5 last_owner_protected [OF h1 h2', of _ member_m1]
    by simp
qed

text \<open>
  Claim C1 as stated names a Conflict error: revoking the single ACTIVE OWNER \<open>m1\<close> of
  company \<open>c1\<close> throws \<open>BadRequestException\<close>, not \<open>ConflictException\<close>.
\<close>

theorem revoke_last_owner_counterexample:
  "revokeMember ''c1'' ''m1'' db_one_owner
     = Inl (BadRequestException ''Cannot revoke the last OWNER.'') \<and>
   revokeMember ''c1'' ''m1'' db_one_owner
     \<noteq> Inl (ConflictException ''Cannot revoke the last OWNER.'')"
  by (simp add: revokeMember_def ownerCount_def active_owner_def db_one_owner_def
      empty_db_def member_m1_def member_m2_def)

section \<open>Ownership transfer\<close>

lemma save_mem_new: "e0 \<in> set rows \<Longrightarrow> key e = key e0 \<Longrightarrow> e \<in> set (save key e rows)"
  by (induction rows) (auto simp: save_def)

lemma save_mem_other: "x \<in> set rows \<Longrightarrow> key x \<noteq> key e \<Longrightarrow> x \<in> set (save key e rows)"
  by (induction rows) (auto simp: save_def)

lemma filter_length_pos: "x \<in> set rows \<Longrightarrow> P x \<Longrightarrow> 1 \<le> length (filter P rows)"
  by (induction rows) auto

text \<open>
  When the target is a membership other than the initiator's, the transfer does what
  its documentation says: the target is OWNER, the initiator is ADMIN, and the tenant
  has an ACTIVE OWNER.
\<close>

lemma transferOwnership_to_other:
  assumes cur: "find (\<lambda>m. cm_company_id m = c \<and> cm_user_id m = u \<and> cm_role m = OWNER \<and>
                       cm_status m = MEMBER_ACTIVE) (company_members d) = Some cur"
    and tgt: "find (\<lambda>m. cm_id m = t \<and> cm_company_id m = c \<and> cm_status m = MEMBER_ACTIVE)
                (company_members d) = Some tgt"
    and ne: "cm_id tgt \<noteq> cm_id cur"
    and res: "transferOwnership c t u d = Inr (msg, d')"
  shows "tgt\<lparr>cm_role := OWNER\<rparr> \<in> set (company_members d') \<and>
         cur\<lparr>cm_role := ADMIN\<rparr> \<in> set (company_members d') \<and>
         1 \<le> ownerCount c d'"
proof -
  let ?rows1 = "save cm_id (tgt\<lparr>cm_role := OWNER\<rparr>) (company_members d)"
  let ?rows2 = "save cm_id (cur\<lparr>cm_role := ADMIN\<rparr>) ?rows1"
  from res cur tgt have d': "company_members d' = ?rows2"
    by (auto simp: transferOwnership_def Let_def)
  from find_SomeD [OF cur] have c1: "cur \<in> set (company_members d)" by simp
  from find_SomeD [OF tgt] have t1: "tgt \<in> set (company_members d)"
    and t2: "cm_company_id tgt = c" "cm_status tgt = MEMBER_ACTIVE" by auto
  have "tgt\<lparr>cm_role := OWNER\<rparr> \<in> set ?rows1"
    using save_mem_new [OF t1, of cm_id "tgt\<lparr>cm_role := OWNER\<rparr>"] by simp
  then have a: "tgt\<lparr>cm_role := OWNER\<rparr> \<in> set ?rows2"
    using ne by (simp add: save_mem_other)
  have "cur \<in> set ?rows1"
    using c1 ne by (simp add: save_mem_other)
  then have b: "cur\<lparr>cm_role := ADMIN\<rparr> \<in> set ?rows2"
    using save_mem_new [of cur ?rows1 cm_id "cur\<lparr>cm_role := ADMIN\<rparr>"] by simp
  have "active_owner c (tgt\<lparr>cm_role := OWNER\<rparr>)" using t2 by (simp add: active_owner_def)
  with a have "1 \<le> length (filter (active_owner c) ?rows2)" by (rule filter_length_pos)
  with a b d' show ?thesis by (simp add: ownerCount_def)
qed

text \<open>
  Claim C2, at the input where the code departs from it. Company \<open>c1\<close> has the single
  ACTIVE OWNER \<open>m1\<close> (user \<open>u1\<close>), who names the own membership as the target. The
  transfer succeeds; the second \<open>save\<close> writes ADMIN over the row the first one wrote
  OWNER to, so the target is not OWNER afterwards and the tenant has no ACTIVE OWNER.
\<close>

theorem transferOwnership_to_self:
  "ownerCount ''c1'' db_one_owner = 1 \<and>
   transferOwnership ''c1'' ''m1'' ''u1'' db_one_owner
     = Inr (''Ownership transferred successfully'',
            db_one_owner\<lparr>company_members := [member_m1\<lparr>cm_role := ADMIN\<rparr>, member_m2]\<rparr>) \<and>
   ownerCount ''c1'' (db_one_owner\<lparr>company_members := [member_m1\<lparr>cm_role := ADMIN\<rparr>, member_m2]\<rparr>)
     = 0"
  by (simp add: transferOwnership_def ownerCount_def active_owner_def save_def
      db_one_owner_def empty_db_def member_m1_def member_m2_def)

section \<open>Deadline-triggered auto-close\<close>

lemma findAndCount_subset: "set (fst (findAndCount P created page limit rows)) \<subseteq> {r \<in> set rows. P r}"
proof -
  have "set (take limit (drop ((page - 1) * limit) (rev (sort_key created (filter P rows)))))
          \<subseteq> set (rev (sort_key created (filter P rows)))"
    by (meson set_take_subset set_drop_subset subset_trans)
  then show ?thesis by (auto simp: findAndCount_def Let_def)
qed

lemma autoClose_no_expired:
  assumes "j \<in> set (job_listings (autoCloseExpiredJobs (Some c) now d))"
    and "jl_company_id j = c" and "jl_deleted_at j = None" and "jl_status j = JOB_ACTIVE"
  shows "\<not> deadline_passed now j"
proof -
  from assms(1) obtain r where r: "r \<in> set (job_listings d)"
    and j: "j = (if jl_status r = JOB_ACTIVE \<and> deadline_passed now r \<and> jl_deleted_at r = None \<and>
                    in_scope (Some c) r then r\<lparr>jl_status := CLOSED\<rparr> else r)"
    by (auto simp: autoCloseExpiredJobs_def update_where_def)
  show ?thesis
  proof (cases "jl_status r = JOB_ACTIVE \<and> deadline_passed now r \<and> jl_deleted_at r = None \<and>
                    in_scope (Some c) r")
    case True
    with j assms(4) show ?thesis by simp
  next
    case False
    with j have "j = r" by simp
    with False assms(2-4) show ?thesis by (auto simp: in_scope_def)
  qed
qed

text \<open>
  The tenant-scoped listing closes before it reads: no posting it returns is ACTIVE
  with a deadline at or before the time of the read.
\<close>

lemma findAll_no_expired_active:
  assumes "JobService_findAll c page limit now d = (res, d')" and "j \<in> set (data res)"
  shows "\<not> (jl_status j = JOB_ACTIVE \<and> deadline_passed now j)"
proof -
  let ?d1 = "autoCloseExpiredJobs (Some c) now d"
  let ?Q = "\<lambda>j. jl_company_id j = c \<and> jl_deleted_at j = None"
  from assms(1) have "data res = fst (findAndCount ?Q jl_created_at page limit (job_listings ?d1))"
    by (auto simp: JobService_findAll_def Let_def paginate_def split: prod.splits)
  with assms(2) findAndCount_subset [of ?Q jl_created_at page limit "job_listings ?d1"]
  have "j \<in> set (job_listings ?d1)" "jl_company_id j = c" "jl_deleted_at j = None" by auto
  then show ?thesis using autoClose_no_expired by blast
qed

text \<open>
  Claim C3, at the input where the code departs from it. \<open>findPublicJobs\<close> never calls
  \<open>autoCloseExpiredJobs\<close> (it does not even read the clock): the posting \<open>j1\<close>, ACTIVE
  with its deadline 500 before the time 1000 of the read, is returned by the public
  listing and stays ACTIVE in the table, while the tenant-scoped listing of the same
  state returns it CLOSED.
\<close>

theorem findPublicJobs_returns_expired:
  "jl_status job_j1 = JOB_ACTIVE \<and> deadline_passed 1000 job_j1 \<and>
   job_j1 \<in> set (job_listings db_expired_job) \<and>
   data (JobService_findPublicJobs 1 10 db_expired_job)
     = [\<lparr>pj_id = ''j1'', pj_title = ''Dev'', pj_description = ''Backend developer'',
         pj_application_deadline = Some 500, pj_company_name = Some ''Acme'',
         pj_created_at = 100\<rparr>] \<and>
   data (fst (JobService_findAll ''c1'' 1 10 1000 db_expired_job)) = [job_j1\<lparr>jl_status := CLOSED\<rparr>]"
  by (simp add: JobService_findPublicJobs_def JobService_findAll_def autoCloseExpiredJobs_def
      update_where_def in_scope_def findAndCount_def paginate_def public_active_def public_job_def
      deadline_passed_def db_expired_job_def empty_db_def job_j1_def company_acme_def)

section \<open>Candidate-facing application listing\<close>

lemmas example_defs =
  empty_db_def company_acme_def job_j2_def resume_r1_def resume_r2_def db_hiring_def
  application_a1_def db_applied_def comment_internal_def db_commented_def

text \<open>
  Claim C4, at the input where the code departs from it. A member of company \<open>c1\<close> adds
  a comment with \<open>visible_to_candidate = false\<close> to the application \<open>a1\<close> of candidate
  \<open>u9\<close>. \<open>getCandidateApplications\<close> maps all comments of an application without a
  filter, so the candidate's listing carries the internal comment.
\<close>

theorem getCandidateApplications_exposes_internal_comment:
  "ApplicationService_addComment ''c1'' ''a1'' ''u2''
      \<lparr>cc_comment = ''Internal'', cc_visible_to_candidate = False\<rparr> ''cm2'' 300 db_applied
     = Inr (comment_view comment_internal, db_commented) \<and>
   map cand_comments (data (ApplicationService_getCandidateApplications ''u9'' 1 10 db_commented))
     = [[\<lparr>cv_id = ''cm2'', cv_comment = ''Internal'', cv_visible_to_candidate = False,
           cv_created_at = 300\<rparr>]]"
  by (simp add: ApplicationService_addComment_def ApplicationService_getCandidateApplications_def
      candidate_application_def comment_view_def insert_row_def findAndCount_def paginate_def
      example_defs)

section \<open>Primary-resume exclusivity and the resume limit\<close>

lemma update_where_keys:
  "(\<And>r. key (f r) = key r) \<Longrightarrow> map key (update_where Q f rows) = map key rows"
  by (induction rows) (auto simp: update_where_def)

lemma update_where_key_image:
  assumes "\<And>r. key (f r) = key r"
  shows "key ` set (update_where Q f rows) = key ` set rows"
proof -
  have "set (map key (update_where Q f rows)) = set (map key rows)"
    using assms by (simp add: update_where_keys)
  then show ?thesis by simp
qed

lemma update_where_filter_none:
  assumes "\<And>r. P r \<Longrightarrow> Q r" and "\<And>r. Q r \<Longrightarrow> \<not> P (f r)"
  shows "filter P (update_where Q f rows) = []"
  using assms by (induction rows) (auto simp: update_where_def)

lemma update_where_filter_same:
  assumes "\<And>r. Q r \<Longrightarrow> \<not> P r \<and> \<not> P (f r)"
  shows "filter P (update_where Q f rows) = filter P rows"
  using assms by (induction rows) (auto simp: update_where_def)

lemma update_where_length_filter:
  assumes "\<And>r. P (f r) = P r"
  shows "length (filter P (update_where Q f rows)) = length (filter P rows)"
  using assms by (induction rows) (auto simp: update_where_def)

lemma update_where_mem: "r \<in> set rows \<Longrightarrow> Q r \<Longrightarrow> f r \<in> set (update_where Q f rows)"
  by (induction rows) (auto simp: update_where_def)

lemma create_cases:
  "resumes (snd (ResumeService_create u fl title p k ok n d)) = resumes d \<or>
   (resumeCount u d < MAX_RESUMES_PER_USER \<and> n \<notin> set (map r_id (resumes d)) \<and>
    resumes (snd (ResumeService_create u fl title p k ok n d))
      = (if p then update_where (\<lambda>r. r_user_id r = u \<and> r_is_primary r)
                     (\<lambda>r. r\<lparr>r_is_primary := False\<rparr>) (resumes d)
         else resumes d) @ [new_resume u fl title p k n])"
  by (auto simp: ResumeService_create_def resumeCount_def insert_row_def Let_def new_resume_def
      update_where_key_image split: option.splits)

lemma setPrimary_cases:
  assumes "ResumeService_setPrimary u rid d = Inr (res, d')"
  obtains resume where "find (\<lambda>r. r_id r = rid \<and> r_user_id r = u) (resumes d) = Some resume"
    and "resumes d' = save r_id (resume\<lparr>r_is_primary := True\<rparr>)
           (update_where (\<lambda>r. r_user_id r = u) (\<lambda>r. r\<lparr>r_is_primary := False\<rparr>) (resumes d))"
  using assms by (auto simp: ResumeService_setPrimary_def Let_def split: option.splits)

lemma create_ids:
  assumes "distinct (map r_id (resumes d))"
  shows "distinct (map r_id (resumes (snd (ResumeService_create u fl title p k ok n d))))"
proof -
  let ?d' = "snd (ResumeService_create u fl title p k ok n d)"
  let ?dem = "update_where (\<lambda>r. r_user_id r = u \<and> r_is_primary r)
                     (\<lambda>r. r\<lparr>r_is_primary := False\<rparr>) (resumes d)"
  from create_cases [of u fl title p k ok n d] show ?thesis
  proof
    assume "resumes ?d' = resumes d"
    with assms show ?thesis by simp
  next
    assume c: "resumeCount u d < MAX_RESUMES_PER_USER \<and> n \<notin> set (map r_id (resumes d)) \<and>
      resumes ?d' = (if p then ?dem else resumes d) @ [new_resume u fl title p k n]"
    have "map r_id (if p then ?dem else resumes d) = map r_id (resumes d)"
      by (simp add: update_where_keys)
    with c assms show ?thesis by (simp add: new_resume_def)
  qed
qed

lemma setPrimary_ids:
  "ResumeService_setPrimary u rid d = Inr (res, d') \<Longrightarrow>
   map r_id (resumes d') = map r_id (resumes d)"
  by (erule setPrimary_cases) (simp add: save_keys update_where_keys)

lemma create_primaryCount:
  "primaryCount A (snd (ResumeService_create u fl title p k ok n d)) = primaryCount A d \<or>
   primaryCount A (snd (ResumeService_create u fl title p k ok n d)) = 1"
proof -
  let ?d' = "snd (ResumeService_create u fl title p k ok n d)"
  let ?P = "\<lambda>r. r_user_id r = A \<and> r_is_primary r"
  let ?dem = "update_where (\<lambda>r. r_user_id r = u \<and> r_is_primary r)
                     (\<lambda>r. r\<lparr>r_is_primary := False\<rparr>) (resumes d)"
  from create_cases [of u fl title p k ok n d] show ?thesis
  proof
    assume "resumes ?d' = resumes d"
    then show ?thesis by (simp add: primaryCount_def)
  next
    assume c: "resumeCount u d < MAX_RESUMES_PER_USER \<and> n \<notin> set (map r_id (resumes d)) \<and>
      resumes ?d' = (if p then ?dem else resumes d) @ [new_resume u fl title p k n]"
    show ?thesis
    proof (cases p)
      case False
      with c show ?thesis by (simp add: primaryCount_def new_resume_def)
    next
      case True
      show ?thesis
      proof (cases "u = A")
        case True
        then have "filter ?P ?dem = []" by (intro update_where_filter_none) auto
        with c \<open>p\<close> True show ?thesis by (simp add: primaryCount_def new_resume_def)
      next
        case False
        then have "filter ?P ?dem = filter ?P (resumes d)"
          by (intro update_where_filter_same) auto
        with c \<open>p\<close> False show ?thesis by (simp add: primaryCount_def new_resume_def)
      qed
    qed
  qed
qed

lemma setPrimary_primaryCount:
  assumes "distinct (map r_id (resumes d))"
    and "ResumeService_setPrimary u rid d = Inr (res, d')"
  shows "primaryCount A d' = primaryCount A d \<or> primaryCount A d' = 1"
proof -
  let ?P = "\<lambda>r. r_user_id r = A \<and> r_is_primary r"
  let ?f = "\<lambda>r. r\<lparr>r_is_primary := False\<rparr>"
  let ?dem = "update_where (\<lambda>r. r_user_id r = u) ?f (resumes d)"
  from assms(2) obtain resume
    where f: "find (\<lambda>r. r_id r = rid \<and> r_user_id r = u) (resumes d) = Some resume"
      and d': "resumes d' = save r_id (resume\<lparr>r_is_primary := True\<rparr>) ?dem"
    by (rule setPrimary_cases)
  from find_SomeD [OF f] have r: "resume \<in> set (resumes d)" "r_user_id resume = u" by auto
  then have e0: "?f resume \<in> set ?dem" by (intro update_where_mem) auto
  have dist: "distinct (map r_id ?dem)" using assms(1) by (simp add: update_where_keys)
  have cnt: "length (filter ?P (save r_id (resume\<lparr>r_is_primary := True\<rparr>) ?dem))
               + (if ?P (?f resume) then 1 else 0)
             = length (filter ?P ?dem) + (if ?P (resume\<lparr>r_is_primary := True\<rparr>) then 1 else 0)"
    using save_count [OF dist e0, of "resume\<lparr>r_is_primary := True\<rparr>" ?P] by simp
  show ?thesis
  proof (cases "u = A")
    case True
    then have "filter ?P ?dem = []" by (intro update_where_filter_none) auto
    with cnt d' True r show ?thesis by (simp add: primaryCount_def)
  next
    case False
    then have "filter ?P ?dem = filter ?P (resumes d)"
      by (intro update_where_filter_same) auto
    with cnt d' False r show ?thesis by (simp add: primaryCount_def)
  qed
qed

lemma resume_step_ids:
  assumes "distinct (map r_id (resumes d))"
  shows "distinct (map r_id (resumes (resume_step d op)))"
proof (cases op)
  case (CreateResume u fl title p k ok n)
  with assms show ?thesis using create_ids [of d u fl title p k ok n] by simp
next
  case (SetPrimary u rid)
  show ?thesis
  proof (cases "ResumeService_setPrimary u rid d")
    case (Inl e)
    with assms SetPrimary show ?thesis by simp
  next
    case (Inr q)
    obtain res d' where q: "q = (res, d')" by (cases q)
    with Inr assms show ?thesis
      using setPrimary_ids [of u rid d res d'] by (simp add: SetPrimary)
  qed
qed

lemma resume_ops_ids:
  "distinct (map r_id (resumes d)) \<Longrightarrow> distinct (map r_id (resumes (resume_ops d ops)))"
  unfolding resume_ops_def
  by (induction ops arbitrary: d) (auto intro: resume_step_ids)

text \<open>One request leaves the number of primary resumes of \<open>A\<close> as it was, or makes it 1.\<close>

lemma resume_step_primaryCount:
  assumes "distinct (map r_id (resumes d))"
  shows "primaryCount A (resume_step d op) = primaryCount A d \<or>
         primaryCount A (resume_step d op) = 1"
proof (cases op)
  case (CreateResume u fl title p k ok n)
  then show ?thesis using create_primaryCount [of A u fl title p k ok n d] by simp
next
  case (SetPrimary u rid)
  show ?thesis
  proof (cases "ResumeService_setPrimary u rid d")
    case (Inl e)
    with SetPrimary show ?thesis by simp
  next
    case (Inr q)
    obtain res d' where q: "q = (res, d')" by (cases q)
    with Inr show ?thesis
      using setPrimary_primaryCount [OF assms, of u rid res d' A] by (simp add: SetPrimary)
  qed
qed

lemma resume_ops_primaryCount:
  assumes "distinct (map r_id (resumes d))"
  shows "primaryCount A (resume_ops d ops) = primaryCount A d \<or>
         primaryCount A (resume_ops d ops) = 1"
  using assms
proof (induction ops arbitrary: d)
  case Nil
  then show ?case by (simp add: resume_ops_def)
next
  case (Cons op ops)
  have step: "resume_ops d (op # ops) = resume_ops (resume_step d op) ops"
    by (simp add: resume_ops_def)
  from Cons.prems have "distinct (map r_id (resumes (resume_step d op)))"
    by (rule resume_step_ids)
  from Cons.IH [OF this] resume_step_primaryCount [OF Cons.prems, of A op]
  show ?case unfolding step by auto
qed

text \<open>
  A successful \<open>setPrimary\<close>, and a successful \<open>create\<close> with \<open>is_primary\<close>, return a
  primary resume and leave exactly one primary resume of the actor.
\<close>

lemma setPrimary_establishes:
  assumes "distinct (map r_id (resumes d))"
    and "ResumeService_setPrimary u rid d = Inr (res, d')"
  shows "r_is_primary res \<and> primaryCount u d' = 1"
proof -
  let ?P = "\<lambda>r. r_user_id r = u \<and> r_is_primary r"
  let ?f = "\<lambda>r. r\<lparr>r_is_primary := False\<rparr>"
  let ?dem = "update_where (\<lambda>r. r_user_id r = u) ?f (resumes d)"
  from assms(2) obtain resume
    where f: "find (\<lambda>r. r_id r = rid \<and> r_user_id r = u) (resumes d) = Some resume"
      and d': "resumes d' = save r_id (resume\<lparr>r_is_primary := True\<rparr>) ?dem"
    by (rule setPrimary_cases)
  from assms(2) f have res: "res = resume\<lparr>r_is_primary := True\<rparr>"
    by (simp add: ResumeService_setPrimary_def Let_def)
  from find_SomeD [OF f] have r: "resume \<in> set (resumes d)" "r_user_id resume = u" by auto
  then have e0: "?f resume \<in> set ?dem" by (intro update_where_mem) auto
  have dist: "distinct (map r_id ?dem)" using assms(1) by (simp add: update_where_keys)
  have cnt: "length (filter ?P (save r_id (resume\<lparr>r_is_primary := True\<rparr>) ?dem))
               + (if ?P (?f resume) then 1 else 0)
             = length (filter ?P ?dem) + (if ?P (resume\<lparr>r_is_primary := True\<rparr>) then 1 else 0)"
    using save_count [OF dist e0, of "resume\<lparr>r_is_primary := True\<rparr>" ?P] by simp
  have "filter ?P ?dem = []" by (intro update_where_filter_none) auto
  with cnt d' r res show ?thesis by (simp add: primaryCount_def)
qed

lemma create_primary_establishes:
  assumes "ResumeService_create u fl title True k ok n d = (Inr res, d')"
  shows "r_is_primary res \<and> primaryCount u d' = 1"
proof -
  let ?P = "\<lambda>r. r_user_id r = u \<and> r_is_primary r"
  let ?dem = "update_where (\<lambda>r. r_user_id r = u \<and> r_is_primary r)
                     (\<lambda>r. r\<lparr>r_is_primary := False\<rparr>) (resumes d)"
  from assms have res: "res = new_resume u fl title True k n"
    and d': "resumes d' = ?dem @ [new_resume u fl title True k n]"
    by (auto simp: ResumeService_create_def insert_row_def Let_def
        split: if_splits option.splits sum.splits)
  have "filter ?P ?dem = []" by (intro update_where_filter_none) auto
  with res d' show ?thesis by (simp add: primaryCount_def new_resume_def)
qed

text \<open>
  Claim C5. For every actor \<open>A\<close>, after any sequence of resume-create and set-primary
  requests run one after the other (from a table with unique identifiers in which at
  most one resume of \<open>A\<close> is primary, the empty table included), the identifiers are
  still unique and the number of resumes of \<open>A\<close> with \<open>is_primary = true\<close> is exactly 0
  or exactly 1. It is 1 whenever it was 1 before the sequence. A successful
  \<open>setPrimary\<close> of \<open>A\<close>, and a successful \<open>create\<close> of \<open>A\<close> with \<open>is_primary\<close>, return a
  primary resume and make the number 1, and it is still 1 after any sequence that
  follows. So the number is 0 only while no resume of \<open>A\<close> was made primary.
\<close>

theorem primary_resume_exclusive:
  assumes "distinct (map r_id (resumes d))" and "primaryCount A d \<le> 1"
  shows "distinct (map r_id (resumes (resume_ops d ops))) \<and>
         (primaryCount A (resume_ops d ops) = 0 \<or> primaryCount A (resume_ops d ops) = 1) \<and>
         (primaryCount A d = 1 \<longrightarrow> primaryCount A (resume_ops d ops) = 1) \<and>
         (\<forall>rid res d'. ResumeService_setPrimary A rid d = Inr (res, d') \<longrightarrow>
            r_is_primary res \<and> primaryCount A d' = 1 \<and>
            primaryCount A (resume_ops d' ops) = 1) \<and>
         (\<forall>fl title k ok n res d'.
            ResumeService_create A fl title True k ok n d = (Inr res, d') \<longrightarrow>
            r_is_primary res \<and> primaryCount A d' = 1 \<and>
            primaryCount A (resume_ops d' ops) = 1)"
proof (intro conjI allI impI)
  show "distinct (map r_id (resumes (resume_ops d ops)))"
    using assms(1) by (rule resume_ops_ids)
  show "primaryCount A (resume_ops d ops) = 0 \<or> primaryCount A (resume_ops d ops) = 1"
    using resume_ops_primaryCount [OF assms(1), of A ops] assms(2) by auto
  show "primaryCount A (resume_ops d ops) = 1" if "primaryCount A d = 1"
    using resume_ops_primaryCount [OF assms(1), of A ops] that by auto
next
  fix rid res d' assume ok: "ResumeService_setPrimary A rid d = Inr (res, d')"
  from setPrimary_establishes [OF assms(1) ok]
  show "r_is_primary res" and one: "primaryCount A d' = 1" by simp_all
  from assms(1) have "distinct (map r_id (resumes d'))"
    using setPrimary_ids [OF ok] by simp
  from resume_ops_primaryCount [OF this, of A ops] one
  show "primaryCount A (resume_ops d' ops) = 1" by auto
next
  fix fl title k ok n res d'
  assume ok: "ResumeService_create A fl title True k ok n d = (Inr res, d')"
  from create_primary_establishes [OF ok]
  show "r_is_primary res" and one: "primaryCount A d' = 1" by simp_all
  from create_ids [OF assms(1), of A fl title True k ok n] ok
  have "distinct (map r_id (resumes d'))" by simp
  from resume_ops_primaryCount [OF this, of A ops] one
  show "primaryCount A (resume_ops d' ops) = 1" by auto
qed

lemmas resume_eval =
  resume_ops_def ResumeService_create_def new_resume_def ResumeService_setPrimary_def
  MAX_RESUMES_PER_USER_def uploadFile_def insert_row_def update_where_def save_def
  title_or_def primaryCount_def resumeCount_def Let_def

theorem primary_resume_exclusive_witness:
  "distinct (map r_id (resumes db_ten_resumes)) \<and> primaryCount ''u7'' db_ten_resumes = 0 \<and>
   ResumeService_setPrimary ''u7'' ''a'' db_ten_resumes
     = Inr ((resume_of_u7 ''a'')\<lparr>r_is_primary := True\<rparr>, db_ten_primary) \<and>
   primaryCount ''u7'' db_ten_primary = 1 \<and>
   primaryCount ''u7'' (resume_ops db_ten_primary [SetPrimary ''u7'' ''b'']) = 1 \<and>
   primaryCount ''u9'' empty_db = 0 \<and>
   ResumeService_create ''u9'' file_cv None True ''u9/k4.pdf'' True ''r4'' empty_db
     = (Inr (new_resume ''u9'' file_cv None True ''u9/k4.pdf'' ''r4''), db_first_primary) \<and>
   primaryCount ''u9'' db_first_primary = 1 \<and>
   primaryCount ''u9'' (resume_ops empty_db
      [CreateResume ''u9'' file_cv None False ''u9/k4.pdf'' True ''r4'']) = 0 \<and>
   primaryCount ''u9'' db_hiring = 1 \<and>
   primaryCount ''u9'' (resume_ops db_hiring
      [CreateResume ''u9'' file_cv (Some ''New'') True ''u9/k3.pdf'' True ''r3'',
       CreateResume ''u9'' file_cv None False ''u9/k4.pdf'' True ''r4'',
       SetPrimary ''u9'' ''r4'']) = 1"
proof -
  let ?opsA = "[CreateResume ''u9'' file_cv (Some ''New'') True ''u9/k3.pdf'' True ''r3'',
       CreateResume ''u9'' file_cv None False ''u9/k4.pdf'' True ''r4'',
       SetPrimary ''u9'' ''r4'']"
  let ?opsB = "[CreateResume ''u9'' file_cv None False ''u9/k4.pdf'' True ''r4'']"
  let ?opsC = "[SetPrimary ''u7'' ''b'']"
  note ten = db_ten_resumes_def db_ten_primary_def empty_db_def resume_of_u7_def
  have t1: "distinct (map r_id (resumes db_ten_resumes))" by (simp add: ten)
  have t2: "primaryCount ''u7'' db_ten_resumes = 0" by (simp add: primaryCount_def ten)
  have t3: "ResumeService_setPrimary ''u7'' ''a'' db_ten_resumes
     = Inr ((resume_of_u7 ''a'')\<lparr>r_is_primary := True\<rparr>, db_ten_primary)"
    by (simp add: ResumeService_setPrimary_def update_where_def save_def Let_def ten)
  from t2 have t2': "primaryCount ''u7'' db_ten_resumes \<le> 1" by simp
  from primary_resume_exclusive [OF t1 t2', of ?opsC] t3
  have t4: "primaryCount ''u7'' db_ten_primary = 1"
    and t5: "primaryCount ''u7'' (resume_ops db_ten_primary ?opsC) = 1"
    by blast+
  have e1: "distinct (map r_id (resumes empty_db))" by (simp add: empty_db_def)
  have e2: "primaryCount ''u9'' empty_db = 0" by (simp add: primaryCount_def empty_db_def)
  have e3: "ResumeService_create ''u9'' file_cv None True ''u9/k4.pdf'' True ''r4'' empty_db
     = (Inr (new_resume ''u9'' file_cv None True ''u9/k4.pdf'' ''r4''), db_first_primary)"
    by (simp add: ResumeService_create_def MAX_RESUMES_PER_USER_def uploadFile_def
        insert_row_def update_where_def Let_def db_first_primary_def empty_db_def)
  from e2 have e2': "primaryCount ''u9'' empty_db \<le> 1" by simp
  from primary_resume_exclusive [OF e1 e2', of ?opsB] e3
  have e4: "primaryCount ''u9'' db_first_primary = 1" by blast
  have e5: "primaryCount ''u9'' (resume_ops empty_db ?opsB) \<noteq> 1"
    by (simp add: resume_eval example_defs file_cv_def)
  from e5 primary_resume_exclusive [OF e1 e2', of ?opsB]
  have e6: "primaryCount ''u9'' (resume_ops empty_db ?opsB) = 0" by simp
  have h1: "distinct (map r_id (resumes db_hiring))" by (simp add: example_defs)
  have h2: "primaryCount ''u9'' db_hiring = 1" by (simp add: primaryCount_def example_defs)
  from h2 have h2': "primaryCount ''u9'' db_hiring \<le> 1" by simp
  from h2 primary_resume_exclusive [OF h1 h2', of ?opsA]
  have h3: "primaryCount ''u9'' (resume_ops db_hiring ?opsA) = 1" by simp
  from t1 t2 t3 t4 t5 e2 e3 e4 e6 h2 h3 show ?thesis by simp
qed

lemma create_resumeCount:
  assumes "resumeCount A d \<le> MAX_RESUMES_PER_USER"
  shows "resumeCount A (snd (ResumeService_create u fl title p k ok n d)) \<le> MAX_RESUMES_PER_USER"
proof -
  let ?d' = "snd (ResumeService_create u fl title p k ok n d)"
  let ?P = "\<lambda>r. r_user_id r = A"
  let ?dem = "update_where (\<lambda>r. r_user_id r = u \<and> r_is_primary r)
                     (\<lambda>r. r\<lparr>r_is_primary := False\<rparr>) (resumes d)"
  from create_cases [of u fl title p k ok n d] show ?thesis
  proof
    assume "resumes ?d' = resumes d"
    with assms show ?thesis by (simp add: resumeCount_def)
  next
    assume c: "resumeCount u d < MAX_RESUMES_PER_USER \<and> n \<notin> set (map r_id (resumes d)) \<and>
      resumes ?d' = (if p then ?dem else resumes d) @ [new_resume u fl title p k n]"
    have "length (filter ?P ?dem) = length (filter ?P (resumes d))"
      by (intro update_where_length_filter) simp
    then have "length (filter ?P (if p then ?dem else resumes d)) = resumeCount A d"
      by (simp add: resumeCount_def)
    with c assms show ?thesis
      by (cases "u = A") (auto simp: resumeCount_def new_resume_def)
  qed
qed

lemma setPrimary_resumeCount:
  assumes "distinct (map r_id (resumes d))"
    and "ResumeService_setPrimary u rid d = Inr (res, d')"
  shows "resumeCount A d' = resumeCount A d"
proof -
  let ?P = "\<lambda>r. r_user_id r = A"
  let ?f = "\<lambda>r. r\<lparr>r_is_primary := False\<rparr>"
  let ?dem = "update_where (\<lambda>r. r_user_id r = u) ?f (resumes d)"
  from assms(2) obtain resume
    where f: "find (\<lambda>r. r_id r = rid \<and> r_user_id r = u) (resumes d) = Some resume"
      and d': "resumes d' = save r_id (resume\<lparr>r_is_primary := True\<rparr>) ?dem"
    by (rule setPrimary_cases)
  from find_SomeD [OF f] have r: "resume \<in> set (resumes d)" "r_user_id resume = u" by auto
  then have e0: "?f resume \<in> set ?dem" by (intro update_where_mem) auto
  have dist: "distinct (map r_id ?dem)" using assms(1) by (simp add: update_where_keys)
  have "length (filter ?P (save r_id (resume\<lparr>r_is_primary := True\<rparr>) ?dem))
               + (if ?P (?f resume) then 1 else 0)
             = length (filter ?P ?dem) + (if ?P (resume\<lparr>r_is_primary := True\<rparr>) then 1 else 0)"
    using save_count [OF dist e0, of "resume\<lparr>r_is_primary := True\<rparr>" ?P] by simp
  moreover have "length (filter ?P ?dem) = length (filter ?P (resumes d))"
    by (intro update_where_length_filter) simp
  ultimately show ?thesis using d' by (simp add: resumeCount_def)
qed

lemma resume_step_limit:
  assumes ok: "within_limit A d"
  shows "within_limit A (resume_step d op)"
proof (cases op)
  case (CreateResume u fl title p k ok' n)
  with ok show ?thesis
    using create_ids [of d u fl title p k ok' n] create_resumeCount [of A d u fl title p k ok' n]
    by (simp add: within_limit_def)
next
  case (SetPrimary u rid)
  show ?thesis
  proof (cases "ResumeService_setPrimary u rid d")
    case (Inl e)
    with ok SetPrimary show ?thesis by simp
  next
    case (Inr q)
    obtain res d' where q: "q = (res, d')" by (cases q)
    with Inr ok show ?thesis
      using setPrimary_resumeCount [of d u rid res d' A] setPrimary_ids [of u rid d res d']
      by (simp add: SetPrimary within_limit_def)
  qed
qed

lemma resume_ops_limit: "within_limit A d \<Longrightarrow> within_limit A (resume_ops d ops)"
  unfolding resume_ops_def
  by (induction ops arbitrary: d) (auto intro: resume_step_limit)

text \<open>
  Claim C10. The limit is 10. For an actor who owns 10 resumes (or more), \<open>create\<close>
  fails with \<open>BadRequestException\<close> and returns the state it was given: nothing was
  uploaded to the bucket and no row was inserted. So an actor within the limit stays
  within it through any sequence of resume-create and set-primary requests.
\<close>

theorem resume_limit:
  assumes "distinct (map r_id (resumes d))"
  shows "MAX_RESUMES_PER_USER = 10 \<and>
    (MAX_RESUMES_PER_USER \<le> resumeCount A d \<longrightarrow>
       ResumeService_create A fl title p k ok n d
         = (Inl (BadRequestException ''Maximum resume limit reached (10)''), d)) \<and>
    (resumeCount A d \<le> MAX_RESUMES_PER_USER \<longrightarrow>
       resumeCount A (resume_ops d ops) \<le> MAX_RESUMES_PER_USER)"
proof -
  have a: "ResumeService_create A fl title p k ok n d
         = (Inl (BadRequestException ''Maximum resume limit reached (10)''), d)"
    if "MAX_RESUMES_PER_USER \<le> resumeCount A d"
    using that by (simp add: ResumeService_create_def resumeCount_def)
  have b: "resumeCount A (resume_ops d ops) \<le> MAX_RESUMES_PER_USER"
    if "resumeCount A d \<le> MAX_RESUMES_PER_USER"
  proof -
    from assms that have "within_limit A d" by (simp add: within_limit_def)
    then have "within_limit A (resume_ops d ops)" by (rule resume_ops_limit)
    then show ?thesis by (simp add: within_limit_def)
  qed
  from a b show ?thesis by (simp add: MAX_RESUMES_PER_USER_def)
qed

theorem resume_limit_witness:
  "distinct (map r_id (resumes db_ten_resumes)) \<and> resumeCount ''u7'' db_ten_resumes = 10 \<and>
   ResumeService_create ''u7'' file_cv None False ''u7/k.pdf'' True ''k'' db_ten_resumes
     = (Inl (BadRequestException ''Maximum resume limit reached (10)''), db_ten_resumes) \<and>
   resumeCount ''u7'' (resume_ops db_ten_resumes
     [CreateResume ''u7'' file_cv None False ''u7/k.pdf'' True ''k'', SetPrimary ''u7'' ''a''])
     \<le> 10"
proof -
  have h1: "distinct (map r_id (resumes db_ten_resumes))"
    by (simp add: db_ten_resumes_def empty_db_def resume_of_u7_def)
  have h2: "resumeCount ''u7'' db_ten_resumes = 10"
    by (simp add: resumeCount_def db_ten_resumes_def empty_db_def resume_of_u7_def)
  show ?thesis
    using h1 h2 resume_limit [OF h1, of "''u7''"]
    by simp
qed

section \<open>Duplicate-application prevention\<close>

lemma find_None_iff_filter: "find P xs = None \<longleftrightarrow> filter P xs = []"
  by (induction xs) auto

lemma find_exists: "x \<in> set xs \<Longrightarrow> P x \<Longrightarrow> \<exists>y. find P xs = Some y"
  by (induction xs) auto

text \<open>What a successful \<open>apply\<close> has checked and written.\<close>

lemma apply_success:
  assumes "ApplicationService_apply u dto n now d = Inr (res, d')"
  shows "\<exists>job resume.
    find (\<lambda>j. jl_id j = ca_job_id dto \<and> jl_status j = JOB_ACTIVE \<and> jl_deleted_at j = None)
       (job_listings d) = Some job \<and>
    find (\<lambda>r. r_id r = ca_resume_id dto \<and> r_user_id r = u) (resumes d) = Some resume \<and>
    find (\<lambda>a. ja_job_id a = ca_job_id dto \<and> ja_user_id a = u) (job_applications d) = None \<and>
    res = (n, ca_job_id dto, APPLIED, now) \<and>
    d' = d\<lparr>job_applications := job_applications d @ [new_application u dto n now job]\<rparr>"
  using assms
  by (auto simp: ApplicationService_apply_def insert_application_def insert_row_def Let_def
      new_application_def split: option.splits if_splits)

lemma apply_duplicate:
  assumes "a \<in> set (job_applications d)" and "application_pair a = (ca_job_id dto, u)"
  shows "\<exists>e. ApplicationService_apply u dto n now d = Inl e"
proof -
  from assms have "\<exists>y. find (\<lambda>a. ja_job_id a = ca_job_id dto \<and> ja_user_id a = u)
                      (job_applications d) = Some y"
    by (intro find_exists [of a]) (auto simp: application_pair_def)
  then show ?thesis
    by (auto simp: ApplicationService_apply_def split: option.splits)
qed

text \<open>
  The first call for a pair: an open posting whose deadline has not passed, a resume
  of the applicant, no row for the pair and a fresh identifier give the created
  application.
\<close>

lemma apply_first:
  assumes jobs: "distinct (map jl_id (job_listings d))"
    and job: "job \<in> set (job_listings d)" "jl_id job = ca_job_id dto"
      "jl_status job = JOB_ACTIVE" "jl_deleted_at job = None"
    and deadline: "\<And>deadline. jl_application_deadline job = Some deadline \<Longrightarrow> now \<le> deadline"
    and resume: "r \<in> set (resumes d)" "r_id r = ca_resume_id dto" "r_user_id r = u"
    and no_row: "\<And>a. a \<in> set (job_applications d) \<Longrightarrow>
                   application_pair a \<noteq> (ca_job_id dto, u)"
    and fresh: "n \<notin> set (map ja_id (job_applications d))"
  shows "ApplicationService_apply u dto n now d
           = Inr ((n, ca_job_id dto, APPLIED, now),
                  d\<lparr>job_applications :=
                      job_applications d @ [new_application u dto n now job]\<rparr>)"
proof -
  have f1: "find (\<lambda>j. jl_id j = ca_job_id dto \<and> jl_status j = JOB_ACTIVE \<and> jl_deleted_at j = None)
              (job_listings d) = Some job"
    using jobs job by (intro find_unique [where key = jl_id]) auto
  have f2: "\<not> (case jl_application_deadline job of None \<Rightarrow> False
                | Some deadline \<Rightarrow> now > deadline)"
    using deadline by (auto split: option.splits)
  from find_exists [of r "resumes d" "\<lambda>r. r_id r = ca_resume_id dto \<and> r_user_id r = u"] resume
  obtain r' where f3: "find (\<lambda>r. r_id r = ca_resume_id dto \<and> r_user_id r = u) (resumes d) = Some r'"
    by auto
  have f4: "find (\<lambda>a. ja_job_id a = ca_job_id dto \<and> ja_user_id a = u) (job_applications d) = None"
    using no_row by (intro find_none) (auto simp: application_pair_def)
  have f5: "(ca_job_id dto, u) \<notin> set (map (\<lambda>r. (ja_job_id r, ja_user_id r)) (job_applications d))"
  proof
    assume "(ca_job_id dto, u) \<in> set (map (\<lambda>r. (ja_job_id r, ja_user_id r)) (job_applications d))"
    then obtain a where "a \<in> set (job_applications d)" "application_pair a = (ca_job_id dto, u)"
      by (auto simp: application_pair_def)
    with no_row show False by blast
  qed
  from f1 f2 f3 f4 f5 fresh show ?thesis
    by (simp add: ApplicationService_apply_def insert_application_def insert_row_def Let_def
        new_application_def)
qed

text \<open>
  Claim C6. On a table in which the pairs \<open>(job, actor)\<close> are unique: the first \<open>apply\<close>
  for a pair (an open posting whose deadline has not passed, a resume of the
  applicant, no row for the pair yet, a fresh identifier) succeeds and returns the
  created application with status APPLIED; an \<open>apply\<close> for a pair that has a row fails
  and writes nothing; an \<open>apply\<close> that succeeds leaves exactly one row for its pair, the
  pairs still unique; and every repetition of that call then fails with a
  \<open>BadRequestException\<close> (HTTP 400), not with a \<open>ConflictException\<close> (HTTP 409).
\<close>

theorem one_application_per_pair:
  assumes uniq: "applications_unique d"
  shows "(distinct (map jl_id (job_listings d)) \<longrightarrow>
          job \<in> set (job_listings d) \<longrightarrow> jl_id job = ca_job_id dto \<longrightarrow>
          jl_status job = JOB_ACTIVE \<longrightarrow> jl_deleted_at job = None \<longrightarrow>
          (\<forall>deadline. jl_application_deadline job = Some deadline \<longrightarrow> now \<le> deadline) \<longrightarrow>
          r \<in> set (resumes d) \<longrightarrow> r_id r = ca_resume_id dto \<longrightarrow> r_user_id r = u \<longrightarrow>
          (\<forall>a \<in> set (job_applications d). application_pair a \<noteq> (ca_job_id dto, u)) \<longrightarrow>
          n \<notin> set (map ja_id (job_applications d)) \<longrightarrow>
            ApplicationService_apply u dto n now d
              = Inr ((n, ca_job_id dto, APPLIED, now),
                     d\<lparr>job_applications :=
                         job_applications d @ [new_application u dto n now job]\<rparr>)) \<and>
         (\<forall>a \<in> set (job_applications d). application_pair a = (ca_job_id dto, u) \<longrightarrow>
            (\<exists>e. ApplicationService_apply u dto n now d = Inl e)) \<and>
         (\<forall>res d'. ApplicationService_apply u dto n now d = Inr (res, d') \<longrightarrow>
            res = (n, ca_job_id dto, APPLIED, now) \<and>
            applications_unique d' \<and>
            length (filter (\<lambda>a. application_pair a = (ca_job_id dto, u)) (job_applications d')) = 1 \<and>
            (\<forall>n2 now2. \<exists>msg. ApplicationService_apply u dto n2 now2 d'
                                = Inl (BadRequestException msg)))"
proof (intro conjI allI impI ballI)
  assume "distinct (map jl_id (job_listings d))"
    "job \<in> set (job_listings d)" "jl_id job = ca_job_id dto"
    "jl_status job = JOB_ACTIVE" "jl_deleted_at job = None"
    "\<forall>deadline. jl_application_deadline job = Some deadline \<longrightarrow> now \<le> deadline"
    "r \<in> set (resumes d)" "r_id r = ca_resume_id dto" "r_user_id r = u"
    "\<forall>a \<in> set (job_applications d). application_pair a \<noteq> (ca_job_id dto, u)"
    "n \<notin> set (map ja_id (job_applications d))"
  then show "ApplicationService_apply u dto n now d
              = Inr ((n, ca_job_id dto, APPLIED, now),
                     d\<lparr>job_applications :=
                         job_applications d @ [new_application u dto n now job]\<rparr>)"
    by (intro apply_first [where r = r]) auto
next
  fix a assume "a \<in> set (job_applications d)" "application_pair a = (ca_job_id dto, u)"
  then show "\<exists>e. ApplicationService_apply u dto n now d = Inl e" by (rule apply_duplicate)
next
  fix res d' assume ok: "ApplicationService_apply u dto n now d = Inr (res, d')"
  from apply_success [OF ok] obtain job resume where
    job: "find (\<lambda>j. jl_id j = ca_job_id dto \<and> jl_status j = JOB_ACTIVE \<and> jl_deleted_at j = None)
       (job_listings d) = Some job"
    and r: "find (\<lambda>r. r_id r = ca_resume_id dto \<and> r_user_id r = u) (resumes d) = Some resume"
    and none: "find (\<lambda>a. ja_job_id a = ca_job_id dto \<and> ja_user_id a = u) (job_applications d) = None"
    and res: "res = (n, ca_job_id dto, APPLIED, now)"
    and d': "d' = d\<lparr>job_applications := job_applications d @ [new_application u dto n now job]\<rparr>"
    by blast
  define row where "row = new_application u dto n now job"
  have row: "ja_job_id row = ca_job_id dto" "ja_user_id row = u"
    by (simp_all add: row_def new_application_def)
  note d' = d' [folded row_def]
  from none have empty: "filter (\<lambda>a. ja_job_id a = ca_job_id dto \<and> ja_user_id a = u)
                           (job_applications d) = []"
    by (simp add: find_None_iff_filter)
  show "res = (n, ca_job_id dto, APPLIED, now)" by (rule res)
  have fresh: "application_pair row \<notin> set (map application_pair (job_applications d))"
  proof
    assume "application_pair row \<in> set (map application_pair (job_applications d))"
    then obtain a where "a \<in> set (job_applications d)" "application_pair a = application_pair row"
      by auto
    with row have "a \<in> set (filter (\<lambda>a. ja_job_id a = ca_job_id dto \<and> ja_user_id a = u)
                             (job_applications d))"
      by (simp add: application_pair_def)
    with empty show False by simp
  qed
  with uniq d' show "applications_unique d'" by (simp add: applications_unique_def)
  from empty row d'
  show "length (filter (\<lambda>a. application_pair a = (ca_job_id dto, u)) (job_applications d')) = 1"
    by (simp add: application_pair_def)
  fix n2 now2
  have "\<exists>y. find (\<lambda>a. ja_job_id a = ca_job_id dto \<and> ja_user_id a = u) (job_applications d') = Some y"
    using row d' by (intro find_exists [of row]) auto
  with job r d' show "\<exists>msg. ApplicationService_apply u dto n2 now2 d' = Inl (BadRequestException msg)"
    by (auto simp: ApplicationService_apply_def split: option.splits)
qed

lemmas apply_eval =
  ApplicationService_apply_def new_application_def insert_application_def insert_row_def answers_or_undefined_def
  video_or_undefined_def

theorem one_application_per_pair_witness:
  "applications_unique db_hiring \<and>
   distinct (map jl_id (job_listings db_hiring)) \<and>
   job_j2 \<in> set (job_listings db_hiring) \<and> jl_id job_j2 = ca_job_id dto_apply \<and>
   jl_status job_j2 = JOB_ACTIVE \<and> jl_deleted_at job_j2 = None \<and>
   jl_application_deadline job_j2 = None \<and>
   resume_r1 \<in> set (resumes db_hiring) \<and> r_id resume_r1 = ca_resume_id dto_apply \<and>
   r_user_id resume_r1 = ''u9'' \<and> job_applications db_hiring = [] \<and>
   ApplicationService_apply ''u9'' dto_apply ''a1'' 200 db_hiring
     = Inr ((''a1'', ''j2'', APPLIED, 200), db_applied) \<and>
   applications_unique db_applied \<and>
   application_a1 \<in> set (job_applications db_applied) \<and>
   application_pair application_a1 = (ca_job_id dto_apply, ''u9'') \<and>
   ApplicationService_apply ''u9'' dto_apply ''a2'' 250 db_applied
     = Inl (BadRequestException ''You have already applied to this job'')"
proof -
  have h1: "applications_unique db_hiring"
    by (simp add: applications_unique_def example_defs)
  have j1: "distinct (map jl_id (job_listings db_hiring))" by (simp add: example_defs)
  have j2: "job_j2 \<in> set (job_listings db_hiring)" by (simp add: example_defs)
  have j3: "jl_id job_j2 = ca_job_id dto_apply" by (simp add: example_defs dto_apply_def)
  have j4: "jl_status job_j2 = JOB_ACTIVE" by (simp add: example_defs)
  have j5: "jl_deleted_at job_j2 = None" by (simp add: example_defs)
  have j6: "jl_application_deadline job_j2 = None" by (simp add: example_defs)
  then have j6': "\<forall>deadline. jl_application_deadline job_j2 = Some deadline \<longrightarrow> 200 \<le> deadline"
    by simp
  have r1: "resume_r1 \<in> set (resumes db_hiring)" by (simp add: example_defs)
  have r2: "r_id resume_r1 = ca_resume_id dto_apply" by (simp add: example_defs dto_apply_def)
  have r3: "r_user_id resume_r1 = ''u9''" by (simp add: example_defs)
  have a0: "job_applications db_hiring = []" by (simp add: example_defs)
  then have a1: "\<forall>a \<in> set (job_applications db_hiring).
                   application_pair a \<noteq> (ca_job_id dto_apply, ''u9'')"
    and a2: "''a1'' \<notin> set (map ja_id (job_applications db_hiring))" by simp_all
  have row: "db_hiring\<lparr>job_applications :=
                 job_applications db_hiring @ [new_application ''u9'' dto_apply ''a1'' 200 job_j2]\<rparr>
             = db_applied"
    by (simp add: new_application_def answers_or_undefined_def video_or_undefined_def
        example_defs dto_apply_def)
  have j3': "ca_job_id dto_apply = ''j2''" by (simp add: dto_apply_def)
  from one_application_per_pair [OF h1, of job_j2 dto_apply 200 resume_r1 "''u9''" "''a1''"]
    j1 j2 j3 j4 j5 j6' r1 r2 r3 a1 a2
  have "ApplicationService_apply ''u9'' dto_apply ''a1'' 200 db_hiring
          = Inr ((''a1'', ca_job_id dto_apply, APPLIED, 200),
                 db_hiring\<lparr>job_applications :=
                   job_applications db_hiring
                     @ [new_application ''u9'' dto_apply ''a1'' 200 job_j2]\<rparr>)"
    by blast
  then have h2: "ApplicationService_apply ''u9'' dto_apply ''a1'' 200 db_hiring
     = Inr ((''a1'', ''j2'', APPLIED, 200), db_applied)"
    by (simp only: row j3')
  have h3: "application_a1 \<in> set (job_applications db_applied)"
    by (simp add: example_defs)
  have h4: "application_pair application_a1 = (ca_job_id dto_apply, ''u9'')"
    by (simp add: application_pair_def example_defs dto_apply_def)
  have h5: "ApplicationService_apply ''u9'' dto_apply ''a2'' 250 db_applied
     = Inl (BadRequestException ''You have already applied to this job'')"
    by (simp add: apply_eval example_defs dto_apply_def)
  from one_application_per_pair [OF h1, of job_j2 dto_apply 200 resume_r1 "''u9''" "''a1''"] h2
  have "applications_unique db_applied" by blast
  with h1 j1 j2 j3 j4 j5 j6 r1 r2 r3 a0 h2 h3 h4 h5 show ?thesis by simp
qed

text \<open>
  Claim C6 as stated names a Conflict error: the second of two identical \<open>apply\<close> calls
  throws \<open>BadRequestException\<close>, not \<open>ConflictException\<close>.
\<close>

theorem apply_twice_counterexample:
  "ApplicationService_apply ''u9'' dto_apply ''a1'' 200 db_hiring
     = Inr ((''a1'', ''j2'', APPLIED, 200), db_applied) \<and>
   ApplicationService_apply ''u9'' dto_apply ''a2'' 250 db_applied
     = Inl (BadRequestException ''You have already applied to this job'') \<and>
   ApplicationService_apply ''u9'' dto_apply ''a2'' 250 db_applied
     \<noteq> Inl (ConflictException ''You have already applied to this job'')"
  by (simp add: apply_eval example_defs dto_apply_def)

section \<open>Application status transitions\<close>

lemma find_save:
  assumes "find P rows = Some a" and "key a' = key a" and "P a'"
  shows "find P (save key a' rows) = Some a'"
  using assms(1)
proof (induction rows)
  case Nil
  then show ?case by simp
next
  case (Cons r rows)
  show ?case
  proof (cases "P r")
    case True
    with Cons.prems have "r = a" by simp
    with assms(2,3) show ?thesis by (simp add: save_def)
  next
    case False
    with Cons.prems have "find P rows = Some a" by simp
    then have "find P (save key a' rows) = Some a'" by (rule Cons.IH)
    with False assms(3) show ?thesis by (simp add: save_def)
  qed
qed

lemma withdraw_found:
  assumes "find (\<lambda>x. ja_id x = aid \<and> ja_user_id x = u) (job_applications d) = Some a"
  shows "ApplicationService_withdraw u aid d =
     (if ja_status a = ACCEPTED
      then Inl (BadRequestException ''Cannot withdraw an already accepted application'')
      else if ja_status a = WITHDRAWN
      then Inl (BadRequestException ''Application is already withdrawn'')
      else Inr (''Application withdrawn successfully'',
                d\<lparr>job_applications :=
                    save ja_id (a\<lparr>ja_status := WITHDRAWN\<rparr>) (job_applications d)\<rparr>))"
  using assms by (simp add: ApplicationService_withdraw_def)

lemma updateStatus_found:
  assumes "find (\<lambda>x. ja_id x = aid \<and> ja_company_id x = c) (job_applications d) = Some b"
  shows "ApplicationService_updateStatus c aid s changedBy d =
     (if ja_status b = WITHDRAWN
      then Inl (BadRequestException ''Cannot update a withdrawn application'')
      else Inr ((ja_id b, s),
                d\<lparr>job_applications :=
                    save ja_id (b\<lparr>ja_status := s, ja_status_changed_by := Some changedBy\<rparr>)
                      (job_applications d)\<rparr>))"
  using assms by (simp add: ApplicationService_updateStatus_def Let_def)

text \<open>
  Claim C7. For an application that the lookup of the operation finds (by identifier
  and applicant for \<open>withdraw\<close>, by identifier and company for \<open>updateStatus\<close>):
  \<open>withdraw\<close> succeeds if and only if the current status is neither ACCEPTED nor
  WITHDRAWN, and then the stored status is WITHDRAWN; \<open>updateStatus\<close> succeeds if and
  only if the current status is not WITHDRAWN (so ACCEPTED to REJECTED is allowed), and
  then the stored status is the requested one. Every rejected attempt throws before
  any write, so the status is unchanged. The invalid-transition error is thrown as
  \<open>BadRequestException\<close> (HTTP 400, which the API documentation lists for an
  "invalid state transition"); the code has no other error class for it.
\<close>

theorem application_status_transitions:
  "(find (\<lambda>x. ja_id x = aid \<and> ja_user_id x = u) (job_applications d) = Some a \<longrightarrow>
      ((\<exists>r. ApplicationService_withdraw u aid d = Inr r)
          \<longleftrightarrow> ja_status a \<noteq> ACCEPTED \<and> ja_status a \<noteq> WITHDRAWN) \<and>
      (\<forall>r d'. ApplicationService_withdraw u aid d = Inr (r, d') \<longrightarrow>
          find (\<lambda>x. ja_id x = aid \<and> ja_user_id x = u) (job_applications d')
            = Some (a\<lparr>ja_status := WITHDRAWN\<rparr>)) \<and>
      (ja_status a = ACCEPTED \<longrightarrow> ApplicationService_withdraw u aid d
          = Inl (BadRequestException ''Cannot withdraw an already accepted application'')) \<and>
      (ja_status a = WITHDRAWN \<longrightarrow> ApplicationService_withdraw u aid d
          = Inl (BadRequestException ''Application is already withdrawn''))) \<and>
   (find (\<lambda>x. ja_id x = aid \<and> ja_company_id x = c) (job_applications d) = Some b \<longrightarrow>
      ((\<exists>r. ApplicationService_updateStatus c aid s changedBy d = Inr r)
          \<longleftrightarrow> ja_status b \<noteq> WITHDRAWN) \<and>
      (\<forall>r d'. ApplicationService_updateStatus c aid s changedBy d = Inr (r, d') \<longrightarrow>
          find (\<lambda>x. ja_id x = aid \<and> ja_company_id x = c) (job_applications d')
            = Some (b\<lparr>ja_status := s, ja_status_changed_by := Some changedBy\<rparr>)) \<and>
      (ja_status b = WITHDRAWN \<longrightarrow> ApplicationService_updateStatus c aid s changedBy d
          = Inl (BadRequestException ''Cannot update a withdrawn application'')))"
proof (intro conjI impI)
  assume f: "find (\<lambda>x. ja_id x = aid \<and> ja_user_id x = u) (job_applications d) = Some a"
  note w = withdraw_found [OF f]
  from find_SomeD [OF f] have a: "ja_id a = aid" "ja_user_id a = u" by auto
  show "(\<exists>r. ApplicationService_withdraw u aid d = Inr r)
          \<longleftrightarrow> ja_status a \<noteq> ACCEPTED \<and> ja_status a \<noteq> WITHDRAWN"
    by (simp add: w)
  show "\<forall>r d'. ApplicationService_withdraw u aid d = Inr (r, d') \<longrightarrow>
          find (\<lambda>x. ja_id x = aid \<and> ja_user_id x = u) (job_applications d')
            = Some (a\<lparr>ja_status := WITHDRAWN\<rparr>)"
    using find_save [OF f, of ja_id "a\<lparr>ja_status := WITHDRAWN\<rparr>"] a
    by (auto simp: w split: if_splits)
  show "ApplicationService_withdraw u aid d
          = Inl (BadRequestException ''Cannot withdraw an already accepted application'')"
    if "ja_status a = ACCEPTED" using that by (simp add: w)
  show "ApplicationService_withdraw u aid d
          = Inl (BadRequestException ''Application is already withdrawn'')"
    if "ja_status a = WITHDRAWN" using that by (simp add: w)
next
  assume f: "find (\<lambda>x. ja_id x = aid \<and> ja_company_id x = c) (job_applications d) = Some b"
  note w = updateStatus_found [OF f]
  from find_SomeD [OF f] have b: "ja_id b = aid" "ja_company_id b = c" by auto
  show "(\<exists>r. ApplicationService_updateStatus c aid s changedBy d = Inr r)
          \<longleftrightarrow> ja_status b \<noteq> WITHDRAWN"
    by (simp add: w)
  show "\<forall>r d'. ApplicationService_updateStatus c aid s changedBy d = Inr (r, d') \<longrightarrow>
          find (\<lambda>x. ja_id x = aid \<and> ja_company_id x = c) (job_applications d')
            = Some (b\<lparr>ja_status := s, ja_status_changed_by := Some changedBy\<rparr>)"
    using find_save [OF f, of ja_id "b\<lparr>ja_status := s, ja_status_changed_by := Some changedBy\<rparr>"] b
    by (auto simp: w split: if_splits)
  show "ApplicationService_updateStatus c aid s changedBy d
          = Inl (BadRequestException ''Cannot update a withdrawn application'')"
    if "ja_status b = WITHDRAWN" using that by (simp add: w)
qed

theorem application_status_transitions_witness:
  "find (\<lambda>x. ja_id x = ''a1'' \<and> ja_user_id x = ''u9'') (job_applications db_accepted)
     = Some (application_a1\<lparr>ja_status := ACCEPTED\<rparr>) \<and>
   find (\<lambda>x. ja_id x = ''a1'' \<and> ja_company_id x = ''c1'') (job_applications db_accepted)
     = Some (application_a1\<lparr>ja_status := ACCEPTED\<rparr>) \<and>
   ApplicationService_withdraw ''u9'' ''a1'' db_accepted
     = Inl (BadRequestException ''Cannot withdraw an already accepted application'') \<and>
   ApplicationService_updateStatus ''c1'' ''a1'' REJECTED ''u2'' db_accepted
     = Inr ((''a1'', REJECTED),
            db_hiring\<lparr>job_applications :=
              [application_a1\<lparr>ja_status := REJECTED, ja_status_changed_by := Some ''u2''\<rparr>]\<rparr>) \<and>
   ApplicationService_withdraw ''u9'' ''a1'' db_applied
     = Inr (''Application withdrawn successfully'',
            db_hiring\<lparr>job_applications := [application_a1\<lparr>ja_status := WITHDRAWN\<rparr>]\<rparr>)"
proof -
  have h1: "find (\<lambda>x. ja_id x = ''a1'' \<and> ja_user_id x = ''u9'') (job_applications db_accepted)
     = Some (application_a1\<lparr>ja_status := ACCEPTED\<rparr>)"
    by (simp add: db_accepted_def example_defs)
  have h2: "find (\<lambda>x. ja_id x = ''a1'' \<and> ja_company_id x = ''c1'') (job_applications db_accepted)
     = Some (application_a1\<lparr>ja_status := ACCEPTED\<rparr>)"
    by (simp add: db_accepted_def example_defs)
  have h3: "ApplicationService_updateStatus ''c1'' ''a1'' REJECTED ''u2'' db_accepted
     = Inr ((''a1'', REJECTED),
            db_hiring\<lparr>job_applications :=
              [application_a1\<lparr>ja_status := REJECTED, ja_status_changed_by := Some ''u2''\<rparr>]\<rparr>)"
    by (simp add: ApplicationService_updateStatus_def save_def db_accepted_def example_defs)
  have h4: "ApplicationService_withdraw ''u9'' ''a1'' db_applied
     = Inr (''Application withdrawn successfully'',
            db_hiring\<lparr>job_applications := [application_a1\<lparr>ja_status := WITHDRAWN\<rparr>]\<rparr>)"
    by (simp add: ApplicationService_withdraw_def save_def example_defs)
  have "ApplicationService_withdraw ''u9'' ''a1'' db_accepted
     = Inl (BadRequestException ''Cannot withdraw an already accepted application'')"
    using h1 application_status_transitions
      [of "''a1''" "''u9''" db_accepted "application_a1\<lparr>ja_status := ACCEPTED\<rparr>"]
    by simp
  with h1 h2 h3 h4 show ?thesis by simp
qed

section \<open>Scoping mismatches\<close>

text \<open>
  In a table with unique identifiers, a lookup by the identifier of a stored row \<open>x\<close>
  together with a condition that \<open>x\<close> does not meet finds nothing.
\<close>

lemma find_foreign:
  assumes "distinct (map key rows)" and "x \<in> set rows"
    and "\<And>y. P y \<Longrightarrow> key y = key x" and "\<not> P x"
  shows "find P rows = None"
proof (rule find_none)
  fix y assume y: "y \<in> set rows"
  show "\<not> P y"
  proof
    assume "P y"
    then have "key y = key x" by (rule assms(3))
    moreover from assms(1) have "inj_on key (set rows)" by (simp add: distinct_map)
    ultimately have "y = x" using y assms(2) by (auto dest: inj_onD)
    with \<open>P y\<close> assms(4) show False by simp
  qed
qed

lemma foreign_job:
  assumes "distinct (map jl_id (job_listings d))" and "j \<in> set (job_listings d)"
    and "jl_company_id j \<noteq> c"
  shows "JobService_findOne c (jl_id j) d = Inl (NotFoundException ''Job not found'')"
proof -
  have "find (\<lambda>x. jl_id x = jl_id j \<and> jl_company_id x = c \<and> jl_deleted_at x = None)
          (job_listings d) = None"
    using assms by (intro find_foreign [where key = jl_id and x = j]) auto
  then show ?thesis by (simp add: JobService_findOne_def)
qed

lemma foreign_bank:
  assumes "distinct (map qb_id (question_banks d))" and "q \<in> set (question_banks d)"
    and "qb_company_id q \<noteq> c"
  shows "find (\<lambda>x. qb_id x = qb_id q \<and> qb_company_id x = c) (question_banks d) = None"
  using assms by (intro find_foreign [where key = qb_id and x = q]) auto

lemma foreign_member:
  assumes "distinct (map cm_id (company_members d))" and "m \<in> set (company_members d)"
    and "cm_company_id m \<noteq> c"
  shows "find (\<lambda>x. cm_id x = cm_id m \<and> cm_company_id x = c) (company_members d) = None"
    and "find (\<lambda>x. cm_id x = cm_id m \<and> cm_company_id x = c \<and> cm_status x = MEMBER_ACTIVE)
           (company_members d) = None"
  using assms by (intro find_foreign [where key = cm_id and x = m]; auto)+

lemma foreign_application:
  assumes "distinct (map ja_id (job_applications d))" and "a \<in> set (job_applications d)"
  shows "ja_user_id a \<noteq> u \<Longrightarrow>
           find (\<lambda>x. ja_id x = ja_id a \<and> ja_user_id x = u) (job_applications d) = None"
    and "ja_company_id a \<noteq> c \<Longrightarrow>
           find (\<lambda>x. ja_id x = ja_id a \<and> ja_company_id x = c) (job_applications d) = None"
  using assms by (intro find_foreign [where key = ja_id and x = a]; auto)+

lemma foreign_resume:
  assumes "distinct (map r_id (resumes d))" and "r \<in> set (resumes d)"
    and "r_user_id r \<noteq> u"
  shows "find (\<lambda>x. r_id x = r_id r \<and> r_user_id x = u) (resumes d) = None"
  using assms by (intro find_foreign [where key = r_id and x = r]) auto

text \<open>
  Claim C8. In tables with unique identifiers, a stored resource that belongs to
  another tenant or another actor is reported as NotFound by every service operation
  that looks it up within the caller's scope: the posting by \<open>JobService\<close>'s
  \<open>findOne\<close>, \<open>update\<close>, \<open>updateStatus\<close> and \<open>softDelete\<close>; the question bank by
  \<open>QuestionBankService\<close>'s \<open>findOne\<close> and \<open>update\<close> and by \<open>JobService.create\<close>; the
  membership by \<open>updateMemberRole\<close>, \<open>revokeMember\<close> and, as the target, by
  \<open>transferOwnership\<close>; the application by \<open>withdraw\<close>, \<open>updateStatus\<close> and
  \<open>addComment\<close>; the resume by \<open>setPrimary\<close> and \<open>delete\<close>. The resume check of \<open>apply\<close>
  is the one exception: for an open posting whose deadline has not passed, the resume
  of another actor is reported as Forbidden.
\<close>

theorem scoping_mismatch_errors:
  assumes "distinct (map jl_id (job_listings d))"
    and "distinct (map qb_id (question_banks d))"
    and "distinct (map cm_id (company_members d))"
    and "distinct (map ja_id (job_applications d))"
    and "distinct (map r_id (resumes d))"
  shows
   "(j \<in> set (job_listings d) \<longrightarrow> jl_company_id j \<noteq> c \<longrightarrow>
       JobService_findOne c (jl_id j) d = Inl (NotFoundException ''Job not found'') \<and>
       JobService_update c (jl_id j) job_dto d = Inl (NotFoundException ''Job not found'') \<and>
       JobService_updateStatus c (jl_id j) job_status d
         = Inl (NotFoundException ''Job not found'') \<and>
       JobService_softDelete c (jl_id j) now d = Inl (NotFoundException ''Job not found'')) \<and>
    (q \<in> set (question_banks d) \<longrightarrow> qb_company_id q \<noteq> c \<longrightarrow>
       QuestionBankService_findOne c (qb_id q) d
         = Inl (NotFoundException ''Question bank not found'') \<and>
       QuestionBankService_update c (qb_id q) bank_dto d
         = Inl (NotFoundException ''Question bank not found'') \<and>
       (cj_question_bank_id create_dto = Some (qb_id q) \<longrightarrow> qb_id q \<noteq> [] \<longrightarrow>
          JobService_create c u create_dto n now d
            = Inl (NotFoundException ''Question bank not found''))) \<and>
    (m \<in> set (company_members d) \<longrightarrow> cm_company_id m \<noteq> c \<longrightarrow>
       updateMemberRole c (cm_id m) role d = Inl (NotFoundException ''Membership not found'') \<and>
       revokeMember c (cm_id m) d = Inl (NotFoundException ''Membership not found'') \<and>
       (cur \<in> set (company_members d) \<longrightarrow> active_owner c cur \<longrightarrow> cm_user_id cur = u \<longrightarrow>
          transferOwnership c (cm_id m) u d
            = Inl (NotFoundException ''Target member not found''))) \<and>
    (a \<in> set (job_applications d) \<longrightarrow> ja_user_id a \<noteq> u \<longrightarrow>
       ApplicationService_withdraw u (ja_id a) d
         = Inl (NotFoundException ''Application not found'')) \<and>
    (b \<in> set (job_applications d) \<longrightarrow> ja_company_id b \<noteq> c \<longrightarrow>
       ApplicationService_updateStatus c (ja_id b) s changedBy d
         = Inl (NotFoundException ''Application not found'') \<and>
       ApplicationService_addComment c (ja_id b) u comment_dto n now d
         = Inl (NotFoundException ''Application not found'')) \<and>
    (r \<in> set (resumes d) \<longrightarrow> r_user_id r \<noteq> u \<longrightarrow>
       ResumeService_setPrimary u (r_id r) d = Inl (NotFoundException ''Resume not found'') \<and>
       ResumeService_delete u (r_id r) remove_error d
         = Inl (NotFoundException ''Resume not found'') \<and>
       (ca_resume_id apply_dto = r_id r \<longrightarrow>
        job \<in> set (job_listings d) \<longrightarrow> jl_id job = ca_job_id apply_dto \<longrightarrow>
        jl_status job = JOB_ACTIVE \<longrightarrow> jl_deleted_at job = None \<longrightarrow>
        (\<forall>deadline. jl_application_deadline job = Some deadline \<longrightarrow> now \<le> deadline) \<longrightarrow>
          ApplicationService_apply u apply_dto n now d
            = Inl (ForbiddenException ''Resume not found or does not belong to you'')))"
proof (intro conjI impI)
  assume j: "j \<in> set (job_listings d)" "jl_company_id j \<noteq> c"
  note nf = foreign_job [OF assms(1) j]
  show "JobService_findOne c (jl_id j) d = Inl (NotFoundException ''Job not found'')"
    by (rule nf)
  show "JobService_update c (jl_id j) job_dto d = Inl (NotFoundException ''Job not found'')"
    by (simp add: JobService_update_def nf)
  show "JobService_updateStatus c (jl_id j) job_status d
          = Inl (NotFoundException ''Job not found'')"
    by (simp add: JobService_updateStatus_def nf)
  show "JobService_softDelete c (jl_id j) now d = Inl (NotFoundException ''Job not found'')"
    by (simp add: JobService_softDelete_def nf)
next
  assume q: "q \<in> set (question_banks d)" "qb_company_id q \<noteq> c"
  note nf = foreign_bank [OF assms(2) q]
  show one: "QuestionBankService_findOne c (qb_id q) d
          = Inl (NotFoundException ''Question bank not found'')"
    by (simp add: QuestionBankService_findOne_def nf)
  show "QuestionBankService_update c (qb_id q) bank_dto d
          = Inl (NotFoundException ''Question bank not found'')"
    by (simp add: QuestionBankService_update_def one)
  show "JobService_create c u create_dto n now d
          = Inl (NotFoundException ''Question bank not found'')"
    if "cj_question_bank_id create_dto = Some (qb_id q)" "qb_id q \<noteq> []"
    using that by (simp add: JobService_create_def snapshot_questions_def nf)
next
  assume m: "m \<in> set (company_members d)" "cm_company_id m \<noteq> c"
  note nf = foreign_member [OF assms(3) m]
  show "updateMemberRole c (cm_id m) role d = Inl (NotFoundException ''Membership not found'')"
    by (simp add: updateMemberRole_def nf(1))
  show "revokeMember c (cm_id m) d = Inl (NotFoundException ''Membership not found'')"
    by (simp add: revokeMember_def nf(1))
  show "transferOwnership c (cm_id m) u d = Inl (NotFoundException ''Target member not found'')"
    if cur: "cur \<in> set (company_members d)" "active_owner c cur" "cm_user_id cur = u"
  proof -
    from cur have "\<exists>y. find (\<lambda>x. cm_company_id x = c \<and> cm_user_id x = u \<and> cm_role x = OWNER \<and>
                              cm_status x = MEMBER_ACTIVE) (company_members d) = Some y"
      by (intro find_exists [of cur]) (auto simp: active_owner_def)
    then show ?thesis by (auto simp: transferOwnership_def nf(2))
  qed
next
  assume "a \<in> set (job_applications d)" "ja_user_id a \<noteq> u"
  then show "ApplicationService_withdraw u (ja_id a) d
               = Inl (NotFoundException ''Application not found'')"
    by (simp add: ApplicationService_withdraw_def foreign_application(1) [OF assms(4)])
next
  assume b: "b \<in> set (job_applications d)" "ja_company_id b \<noteq> c"
  note nf = foreign_application(2) [OF assms(4) b]
  show "ApplicationService_updateStatus c (ja_id b) s changedBy d
          = Inl (NotFoundException ''Application not found'')"
    by (simp add: ApplicationService_updateStatus_def nf)
  show "ApplicationService_addComment c (ja_id b) u comment_dto n now d
          = Inl (NotFoundException ''Application not found'')"
    by (simp add: ApplicationService_addComment_def nf)
next
  assume r: "r \<in> set (resumes d)" "r_user_id r \<noteq> u"
  note nf = foreign_resume [OF assms(5) r]
  show "ResumeService_setPrimary u (r_id r) d = Inl (NotFoundException ''Resume not found'')"
    by (simp add: ResumeService_setPrimary_def nf)
  show "ResumeService_delete u (r_id r) remove_error d
          = Inl (NotFoundException ''Resume not found'')"
    by (simp add: ResumeService_delete_def nf)
  show "ApplicationService_apply u apply_dto n now d
          = Inl (ForbiddenException ''Resume not found or does not belong to you'')"
    if dto: "ca_resume_id apply_dto = r_id r"
      and job: "job \<in> set (job_listings d)" "jl_id job = ca_job_id apply_dto"
        "jl_status job = JOB_ACTIVE" "jl_deleted_at job = None"
      and dl: "\<forall>deadline. jl_application_deadline job = Some deadline \<longrightarrow> now \<le> deadline"
  proof -
    have f1: "find (\<lambda>x. jl_id x = ca_job_id apply_dto \<and> jl_status x = JOB_ACTIVE \<and>
                        jl_deleted_at x = None) (job_listings d) = Some job"
      using assms(1) job by (intro find_unique [where key = jl_id]) auto
    from dl have f2: "\<not> (case jl_application_deadline job of None \<Rightarrow> False
                               | Some deadline \<Rightarrow> now > deadline)"
      by (auto split: option.splits)
    from f1 f2 nf dto show ?thesis by (simp add: ApplicationService_apply_def)
  qed
qed

theorem scoping_mismatch_errors_witness:
  "job_j2 \<in> set (job_listings db_two_tenants) \<and> jl_id job_j2 = ''j2'' \<and> jl_company_id job_j2 = ''c1'' \<and>
   JobService_findOne ''c2'' ''j2'' db_two_tenants = Inl (NotFoundException ''Job not found'') \<and>
   JobService_update ''c2'' ''j2''
       \<lparr>uj_title = Some ''Edited'', uj_description = None, uj_visibility = None,
        uj_status = Some CLOSED, uj_application_deadline = None\<rparr> db_two_tenants
     = Inl (NotFoundException ''Job not found'') \<and>
   JobService_updateStatus ''c2'' ''j2'' CLOSED db_two_tenants
     = Inl (NotFoundException ''Job not found'') \<and>
   JobService_softDelete ''c2'' ''j2'' 400 db_two_tenants = Inl (NotFoundException ''Job not found'') \<and>
   bank_qb1 \<in> set (question_banks db_two_tenants) \<and> qb_id bank_qb1 = ''qb1'' \<and>
   qb_company_id bank_qb1 = ''c1'' \<and>
   QuestionBankService_findOne ''c2'' ''qb1'' db_two_tenants
     = Inl (NotFoundException ''Question bank not found'') \<and>
   QuestionBankService_update ''c2'' ''qb1'' dto_edit db_two_tenants
     = Inl (NotFoundException ''Question bank not found'') \<and>
   JobService_create ''c2'' ''u8'' dto_job ''a9'' 400 db_two_tenants
     = Inl (NotFoundException ''Question bank not found'') \<and>
   member_m1 \<in> set (company_members db_two_tenants) \<and> cm_id member_m1 = ''m1'' \<and>
   cm_company_id member_m1 = ''c1'' \<and>
   updateMemberRole ''c2'' ''m1'' ADMIN db_two_tenants = Inl (NotFoundException ''Membership not found'') \<and>
   revokeMember ''c2'' ''m1'' db_two_tenants = Inl (NotFoundException ''Membership not found'') \<and>
   member_m3 \<in> set (company_members db_two_tenants) \<and> active_owner ''c2'' member_m3 \<and>
   transferOwnership ''c2'' ''m1'' ''u8'' db_two_tenants
     = Inl (NotFoundException ''Target member not found'') \<and>
   application_a1 \<in> set (job_applications db_two_tenants) \<and> ja_id application_a1 = ''a1'' \<and>
   ja_user_id application_a1 = ''u9'' \<and> ja_company_id application_a1 = ''c1'' \<and>
   ApplicationService_withdraw ''u8'' ''a1'' db_two_tenants
     = Inl (NotFoundException ''Application not found'') \<and>
   ApplicationService_updateStatus ''c2'' ''a1'' REJECTED ''u8'' db_two_tenants
     = Inl (NotFoundException ''Application not found'') \<and>
   ApplicationService_addComment ''c2'' ''a1'' ''u8''
       \<lparr>cc_comment = ''Hello'', cc_visible_to_candidate = True\<rparr> ''a9'' 400 db_two_tenants
     = Inl (NotFoundException ''Application not found'') \<and>
   resume_r1 \<in> set (resumes db_two_tenants) \<and> r_id resume_r1 = ''r1'' \<and> r_user_id resume_r1 = ''u9'' \<and>
   ResumeService_setPrimary ''u8'' ''r1'' db_two_tenants = Inl (NotFoundException ''Resume not found'') \<and>
   ResumeService_delete ''u8'' ''r1'' None db_two_tenants = Inl (NotFoundException ''Resume not found'') \<and>
   ApplicationService_apply ''u8'' dto_apply ''a9'' 400 db_two_tenants
     = Inl (ForbiddenException ''Resume not found or does not belong to you'')"
proof -
  note defs = db_two_tenants_def db_all_def example_defs member_m1_def member_m2_def member_m3_def bank_qb1_def
    dto_apply_def dto_job_def
  have d1: "distinct (map jl_id (job_listings db_two_tenants))" by (simp add: defs)
  have d2: "distinct (map qb_id (question_banks db_two_tenants))" by (simp add: defs)
  have d3: "distinct (map cm_id (company_members db_two_tenants))" by (simp add: defs)
  have d4: "distinct (map ja_id (job_applications db_two_tenants))" by (simp add: defs)
  have d5: "distinct (map r_id (resumes db_two_tenants))" by (simp add: defs)
  have j: "job_j2 \<in> set (job_listings db_two_tenants)" "jl_id job_j2 = ''j2''"
    "jl_company_id job_j2 = ''c1''" "jl_status job_j2 = JOB_ACTIVE"
    "jl_deleted_at job_j2 = None" "jl_application_deadline job_j2 = None"
    by (simp_all add: defs)
  have q: "bank_qb1 \<in> set (question_banks db_two_tenants)" "qb_id bank_qb1 = ''qb1''"
    "qb_company_id bank_qb1 = ''c1''" "cj_question_bank_id dto_job = Some ''qb1''"
    by (simp_all add: defs)
  have m: "member_m1 \<in> set (company_members db_two_tenants)" "cm_id member_m1 = ''m1''"
    "cm_company_id member_m1 = ''c1''" "member_m3 \<in> set (company_members db_two_tenants)"
    "active_owner ''c2'' member_m3" "cm_user_id member_m3 = ''u8''"
    by (simp_all add: defs active_owner_def)
  have a: "application_a1 \<in> set (job_applications db_two_tenants)" "ja_id application_a1 = ''a1''"
    "ja_user_id application_a1 = ''u9''" "ja_company_id application_a1 = ''c1''"
    by (simp_all add: defs)
  have r: "resume_r1 \<in> set (resumes db_two_tenants)" "r_id resume_r1 = ''r1''"
    "r_user_id resume_r1 = ''u9''" "ca_resume_id dto_apply = ''r1''"
    "ca_job_id dto_apply = ''j2''"
    by (simp_all add: defs)
  note inst = scoping_mismatch_errors [OF d1 d2 d3 d4 d5,
    where c = "''c2''" and u = "''u8''" and j = job_j2 and q = bank_qb1 and m = member_m1
      and cur = member_m3 and a = application_a1 and b = application_a1 and r = resume_r1
      and job = job_j2 and now = 400 and n = "''a9''" and create_dto = dto_job
      and apply_dto = dto_apply and job_status = CLOSED and bank_dto = dto_edit
      and role = ADMIN and s = REJECTED and changedBy = "''u8''" and remove_error = None
      and comment_dto = "\<lparr>cc_comment = ''Hello'', cc_visible_to_candidate = True\<rparr>"
      and job_dto = "\<lparr>uj_title = Some ''Edited'', uj_description = None, uj_visibility = None,
        uj_status = Some CLOSED, uj_application_deadline = None\<rparr>"]
  from inst j q m a r show ?thesis by simp
qed

text \<open>
  Claim C8 as stated says never Forbidden: \<open>u9\<close> applying with the resume \<open>r2\<close>, which
  exists and belongs to \<open>u8\<close>, gets \<open>ForbiddenException\<close>, not \<open>NotFoundException\<close>.
\<close>

theorem apply_foreign_resume_counterexample:
  "resume_r2 \<in> set (resumes db_hiring) \<and> r_id resume_r2 = ca_resume_id dto_apply_foreign \<and>
   r_user_id resume_r2 = ''u8'' \<and>
   ApplicationService_apply ''u9'' dto_apply_foreign ''a2'' 250 db_hiring
     = Inl (ForbiddenException ''Resume not found or does not belong to you'') \<and>
   ApplicationService_apply ''u9'' dto_apply_foreign ''a2'' 250 db_hiring
     \<noteq> Inl (NotFoundException ''Resume not found or does not belong to you'')"
  by (simp add: ApplicationService_apply_def example_defs dto_apply_foreign_def)

section \<open>Question-bank snapshot\<close>

lemma find_append_last:
  assumes "\<And>y. y \<in> set xs \<Longrightarrow> \<not> P y" and "P x"
  shows "find P (xs @ [x]) = Some x"
  using assms by (induction xs) auto

lemma JobService_findOne_banks:
  "JobService_findOne c j (d\<lparr>question_banks := banks\<rparr>) = JobService_findOne c j d"
  by (simp add: JobService_findOne_def)

lemma QuestionBankService_update_frame:
  assumes "QuestionBankService_update c q dto d = Inr (r, d')"
  shows "\<exists>banks. d' = d\<lparr>question_banks := banks\<rparr>"
  using assms
  by (auto simp: QuestionBankService_update_def Let_def split: sum.splits)

lemma create_with_bank:
  assumes "cj_question_bank_id dto = Some qbId" and "qbId \<noteq> []"
    and "JobService_create c u dto n now d = Inr (res, d1)"
  shows "\<exists>qb. find (\<lambda>q. qb_id q = qbId \<and> qb_company_id q = c) (question_banks d) = Some qb \<and>
           n \<notin> set (map jl_id (job_listings d)) \<and>
           d1 = d\<lparr>job_listings :=
                    job_listings d @ [new_job c u dto n now (qb_questions_json qb)]\<rparr>"
  using assms
  by (auto simp: JobService_create_def snapshot_questions_def insert_row_def Let_def new_job_def
      split: option.splits sum.splits if_splits)

text \<open>
  Claim C9. A posting created with a question-bank reference stores the question list
  that the bank holds at that moment. The posting read back by \<open>findOne\<close> carries this
  snapshot, and it is the same posting after any edit of a question bank by
  \<open>QuestionBankService.update\<close> and, more generally, whatever the question-bank table
  holds afterwards (later edits, or the bank's row removed).
\<close>

theorem snapshot_independent_of_bank:
  assumes "cj_question_bank_id dto = Some qbId" and "qbId \<noteq> []"
    and "JobService_create c u dto n now d = Inr (res, d1)"
  shows "\<exists>qb job.
           QuestionBankService_findOne c qbId d = Inr qb \<and>
           JobService_findOne c n d1 = Inr job \<and>
           jl_screening_questions_json job = qb_questions_json qb \<and>
           (\<forall>c' q' dto' r d2. QuestionBankService_update c' q' dto' d1 = Inr (r, d2) \<longrightarrow>
              JobService_findOne c n d2 = Inr job) \<and>
           (\<forall>banks. JobService_findOne c n (d1\<lparr>question_banks := banks\<rparr>) = Inr job)"
proof -
  from create_with_bank [OF assms] obtain qb
    where qb: "find (\<lambda>q. qb_id q = qbId \<and> qb_company_id q = c) (question_banks d) = Some qb"
      and fresh: "n \<notin> set (map jl_id (job_listings d))"
      and d1: "d1 = d\<lparr>job_listings :=
                    job_listings d @ [new_job c u dto n now (qb_questions_json qb)]\<rparr>"
    by blast
  define job where "job = new_job c u dto n now (qb_questions_json qb)"
  have job: "jl_id job = n" "jl_company_id job = c" "jl_deleted_at job = None"
    and snap: "jl_screening_questions_json job = qb_questions_json qb"
    by (simp_all add: job_def new_job_def)
  note d1 = d1 [folded job_def]
  have other: "\<not> (jl_id y = n \<and> jl_company_id y = c \<and> jl_deleted_at y = None)"
    if "y \<in> set (job_listings d)" for y
    using fresh that by auto
  have "find (\<lambda>j. jl_id j = n \<and> jl_company_id j = c \<and> jl_deleted_at j = None)
          (job_listings d @ [job]) = Some job"
    by (rule find_append_last) (use other job in simp_all)
  then have one: "JobService_findOne c n d1 = Inr job"
    by (simp add: JobService_findOne_def d1)
  have any: "JobService_findOne c n (d1\<lparr>question_banks := banks\<rparr>) = Inr job" for banks
    using one by (simp add: JobService_findOne_banks)
  have upd: "JobService_findOne c n d2 = Inr job"
    if "QuestionBankService_update c' q' dto' d1 = Inr (r, d2)" for c' q' dto' r d2
    using QuestionBankService_update_frame [OF that] any by auto
  from qb have "QuestionBankService_findOne c qbId d = Inr qb"
    by (simp add: QuestionBankService_findOne_def)
  with one snap upd any show ?thesis by blast
qed

theorem snapshot_independent_of_bank_witness:
  "cj_question_bank_id dto_job = Some ''qb1'' \<and>
   JobService_create ''c1'' ''u1'' dto_job ''j5'' 500 db_all
     = Inr ((''j5'', ''SRE'', DRAFT, 500), db_created) \<and>
   QuestionBankService_update ''c1'' ''qb1'' dto_edit db_created
     = Inr (bank_qb1\<lparr>qb_questions_json := JArr []\<rparr>, db_edited) \<and>
   QuestionBankService_findOne ''c1'' ''qb1'' db_edited
     = Inr (bank_qb1\<lparr>qb_questions_json := JArr []\<rparr>) \<and>
   JobService_findOne ''c1'' ''j5'' db_edited = Inr job_j5 \<and>
   jl_screening_questions_json job_j5 = qb_questions_json bank_qb1 \<and>
   qb_questions_json bank_qb1 \<noteq> JArr []"
proof -
  note defs = db_all_def example_defs member_m1_def member_m2_def bank_qb1_def dto_job_def
    job_j5_def db_created_def dto_edit_def db_edited_def
  have h1: "cj_question_bank_id dto_job = Some ''qb1''" by (simp add: dto_job_def)
  have h2: "''qb1'' \<noteq> []" by simp
  have h3: "JobService_create ''c1'' ''u1'' dto_job ''j5'' 500 db_all
     = Inr ((''j5'', ''SRE'', DRAFT, 500), db_created)"
    by (simp add: JobService_create_def new_job_def snapshot_questions_def insert_row_def
        Let_def defs)
  have h4: "QuestionBankService_update ''c1'' ''qb1'' dto_edit db_created
     = Inr (bank_qb1\<lparr>qb_questions_json := JArr []\<rparr>, db_edited)"
    by (simp add: QuestionBankService_update_def QuestionBankService_findOne_def
        assign_question_bank_def save_def Let_def defs)
  have h5: "QuestionBankService_findOne ''c1'' ''qb1'' db_edited
     = Inr (bank_qb1\<lparr>qb_questions_json := JArr []\<rparr>)"
    by (simp add: QuestionBankService_findOne_def defs)
  have h6: "JobService_findOne ''c1'' ''j5'' db_created = Inr job_j5"
    by (simp add: JobService_findOne_def defs)
  have h7: "jl_screening_questions_json job_j5 = qb_questions_json bank_qb1"
    by (simp add: job_j5_def)
  have h8: "qb_questions_json bank_qb1 \<noteq> JArr []" by (simp add: bank_qb1_def)
  from snapshot_independent_of_bank [OF h1 h2 h3] h6 h4
  have "JobService_findOne ''c1'' ''j5'' db_edited = Inr job_j5" by fastforce
  with h1 h3 h4 h5 h7 h8 show ?thesis by simp
qed

end
